theory Spec2Isabelle
  imports Main
begin

section \<open>Holiday updates monitor: the checker of \<^verbatim>\<open>check_holiday_updates.py\<close>\<close>

text \<open>
  The script scans a directory of holiday files, asks git for the age of each file and
  opens one issue per outdated file. Its collaborators are modelled as explicit values:
  \<^item> the file system, git and the clock are a read-only \<open>world\<close>: one run sees one
    state of them, so each is a function of its arguments;
  \<^item> the issue tracker is a state that the reconciling functions take and return;
  \<^item> every \<^verbatim>\<open>raise\<close> is an \<open>Inl\<close> of the type \<open>exn\<close>, every \<^verbatim>\<open>except\<close> a case on it.
  Logging is left out. Strings are ASCII: a byte above 127 has no case and is no
  white space.
\<close>

subsection \<open>Exceptions\<close>

text \<open>
  The messages of the four \<^verbatim>\<open>RuntimeError\<close>s distinguish them: git status failed
  (line 124), no commit history (lines 159 and 219), a git command failed (lines 187 and
  225), the file could not be accessed (lines 191 and 229). \<open>OtherException\<close> stands
  for every exception class of Python that is a subclass of \<^verbatim>\<open>Exception\<close> and none of
  the others.
\<close>

datatype reason = GitNotAccessible | NoCommitHistory | GitCommandFailed | FileAccessFailed

datatype exn =
    RuntimeError reason
  | ValueError
  | KeyError string
  | OSError
  | CalledProcessError
  | GithubException
  | OtherException

subsection \<open>Strings\<close>

definition ascii_lowercase :: string where
  "ascii_lowercase = ''abcdefghijklmnopqrstuvwxyz''"

definition ascii_uppercase :: string where
  "ascii_uppercase = ''ABCDEFGHIJKLMNOPQRSTUVWXYZ''"

definition lower_char :: "char \<Rightarrow> char" where
  "lower_char c =
     (case map_of (zip ascii_uppercase ascii_lowercase) c of Some l \<Rightarrow> l | None \<Rightarrow> c)"

definition upper_char :: "char \<Rightarrow> char" where
  "upper_char c =
     (case map_of (zip ascii_lowercase ascii_uppercase) c of Some u \<Rightarrow> u | None \<Rightarrow> c)"

definition is_cased :: "char \<Rightarrow> bool" where
  "is_cased c = (c \<in> set ascii_lowercase \<or> c \<in> set ascii_uppercase)"

text \<open>
  \<^verbatim>\<open>str.title()\<close>: a letter that follows a cased letter is lowered, any other letter
  is raised; whether a character is cased is asked of the character as it was.
\<close>

fun title_from :: "bool \<Rightarrow> string \<Rightarrow> string" where
  "title_from previous_is_cased [] = []"
| "title_from previous_is_cased (c # cs) =
     (if previous_is_cased then lower_char c else upper_char c) # title_from (is_cased c) cs"

definition str_title :: "string \<Rightarrow> string" where
  "str_title s = title_from False s"

text \<open>\<^verbatim>\<open>s.replace(old, new)\<close> for single characters.\<close>

definition replace_char :: "char \<Rightarrow> char \<Rightarrow> string \<Rightarrow> string" where
  "replace_char old new s = map (\<lambda>c. if c = old then new else c) s"

text \<open>\<^verbatim>\<open>s.rfind(c)\<close>: the index of the last \<open>c\<close>, or \<open>-1\<close>.\<close>

fun rfind_from :: "char \<Rightarrow> string \<Rightarrow> int \<Rightarrow> int \<Rightarrow> int" where
  "rfind_from c [] i found = found"
| "rfind_from c (x # xs) i found = rfind_from c xs (i + 1) (if x = c then i else found)"

definition rfind :: "string \<Rightarrow> char \<Rightarrow> int" where
  "rfind s c = rfind_from c s 0 (- 1)"

definition whitespace :: "char list" where
  "whitespace =
     [CHR 0x09, CHR 0x0A, CHR 0x0B, CHR 0x0C, CHR 0x0D,
      CHR 0x1C, CHR 0x1D, CHR 0x1E, CHR 0x1F, CHR 0x20]"

definition strip :: "string \<Rightarrow> string" where
  "strip s =
     rev (dropWhile (\<lambda>c. c \<in> set whitespace) (rev (dropWhile (\<lambda>c. c \<in> set whitespace) s)))"

definition endswith :: "string \<Rightarrow> string \<Rightarrow> bool" where
  "endswith s suffix =
     (length suffix \<le> length s \<and> drop (length s - length suffix) s = suffix)"

text \<open>
  \<^verbatim>\<open>int(s)\<close> on a stripped string: an optional sign, then decimal digits, where single
  underscores may stand between digits. \<open>None\<close> is Python's \<^verbatim>\<open>ValueError\<close>.
\<close>

definition digit_val :: "char \<Rightarrow> nat option" where
  "digit_val c = map_of (zip ''0123456789'' [0, 1, 2, 3, 4, 5, 6, 7, 8, 9]) c"

fun parse_digits :: "string \<Rightarrow> nat \<Rightarrow> bool \<Rightarrow> nat option" where
  "parse_digits [] acc previous_is_digit = (if previous_is_digit then Some acc else None)"
| "parse_digits (c # cs) acc previous_is_digit =
     (if c = CHR ''_''
      then (if previous_is_digit \<and> cs \<noteq> [] then parse_digits cs acc False else None)
      else (case digit_val c of
              None \<Rightarrow> None
            | Some d \<Rightarrow> parse_digits cs (10 * acc + d) True))"

definition py_int :: "string \<Rightarrow> int option" where
  "py_int s =
     (case s of
        [] \<Rightarrow> None
      | c # cs \<Rightarrow>
          if c = CHR ''-'' then map_option (\<lambda>n. - int n) (parse_digits cs 0 False)
          else if c = CHR ''+'' then map_option int (parse_digits cs 0 False)
          else map_option int (parse_digits s 0 False))"

text \<open>\<^verbatim>\<open>str(n)\<close> for an integer, as the f-strings and \<^verbatim>\<open>format\<close> render it.\<close>

fun show_nat :: "nat \<Rightarrow> string" where
  "show_nat n =
     (if n < 10 then [''0123456789'' ! n]
      else show_nat (n div 10) @ [''0123456789'' ! (n mod 10)])"

declare show_nat.simps [simp del]

definition show_int :: "int \<Rightarrow> string" where
  "show_int i = (if i < 0 then CHR ''-'' # show_nat (nat (- i)) else show_nat (nat i))"

subsection \<open>Paths\<close>

text \<open>
  A \<^verbatim>\<open>pathlib.Path\<close> is its anchor (absolute or not) and its components.
\<close>

record py_path =
  absolute :: bool
  parts :: "string list"

text \<open>\<^verbatim>\<open>a / b\<close>: an absolute right operand replaces the left one.\<close>

definition joinpath :: "py_path \<Rightarrow> py_path \<Rightarrow> py_path" where
  "joinpath a b = (if absolute b then b else a\<lparr>parts := parts a @ parts b\<rparr>)"

text \<open>\<^verbatim>\<open>p.relative_to(other)\<close> raises \<^verbatim>\<open>ValueError\<close> unless \<open>p\<close> lies under \<open>other\<close>.\<close>

definition relative_to :: "py_path \<Rightarrow> py_path \<Rightarrow> exn + py_path" where
  "relative_to p other =
     (if absolute p = absolute other \<and> take (length (parts other)) (parts p) = parts other
      then Inr \<lparr>absolute = False, parts = drop (length (parts other)) (parts p)\<rparr>
      else Inl ValueError)"

fun join_parts :: "string list \<Rightarrow> string" where
  "join_parts [] = []"
| "join_parts [x] = x"
| "join_parts (x # y # ys) = x @ ''/'' @ join_parts (y # ys)"

text \<open>\<^verbatim>\<open>str(p)\<close>.\<close>

definition str_path :: "py_path \<Rightarrow> string" where
  "str_path p =
     (if absolute p then ''/'' @ join_parts (parts p)
      else if parts p = [] then ''.'' else join_parts (parts p))"

text \<open>\<^verbatim>\<open>p.name\<close>: the last component, empty when there is none.\<close>

definition path_name :: "py_path \<Rightarrow> string" where
  "path_name p = (if parts p = [] then [] else last (parts p))"

text \<open>\<^verbatim>\<open>p.stem\<close>: the name without its last suffix.\<close>

definition stem :: "py_path \<Rightarrow> string" where
  "stem p =
     (let name = path_name p; i = rfind name (CHR ''.'')
      in if 0 < i \<and> i < int (length name) - 1 then take (nat i) name else name)"

subsection \<open>The world: subprocesses, directory listings, clock, template\<close>

text \<open>
  \<^verbatim>\<open>subprocess.run\<close> either cannot start the program (\<^verbatim>\<open>OSError\<close>) or completes with
  a return code and its standard output. With \<^verbatim>\<open>check=True\<close> a return code other
  than 0 raises \<^verbatim>\<open>CalledProcessError\<close>.
\<close>

datatype proc = Raises_OSError | Returns int string

text \<open>
  The body template \<^verbatim>\<open>issue_body_template.md\<close> is a file beside the script and not
  part of the sources; it is a parameter, taken as already split into literal text and
  the \<^verbatim>\<open>{name}\<close> fields that \<^verbatim>\<open>str.format\<close> replaces.
\<close>

datatype piece = Text string | Field string

datatype template_read = FileNotFound | ReadFails | Contents "piece list"

record world =
  subprocess_run :: "string list \<Rightarrow> proc"
  path_exists :: "py_path \<Rightarrow> bool"
  scandir :: "py_path \<Rightarrow> string list"
  now :: int
  isoformat :: "int \<Rightarrow> string"
  format_date :: "string \<Rightarrow> string option"
  template_file :: template_read

text \<open>
  \<^item> \<open>subprocess_run w argv\<close>: the command run in the repository root;
  \<^item> \<open>scandir w d\<close>: the names of the entries of \<open>d\<close>, in the order the operating
    system lists them;
  \<^item> \<open>now w\<close>: \<^verbatim>\<open>datetime.now()\<close> in whole seconds since the epoch;
  \<^item> \<open>isoformat w t\<close>: \<^verbatim>\<open>datetime.fromtimestamp(t).isoformat()\<close>;
  \<^item> \<open>format_date w s\<close>: \<^verbatim>\<open>datetime.fromisoformat(s).strftime("%B %d, %Y")\<close>, \<open>None\<close>
    when \<open>s\<close> is no ISO date (\<^verbatim>\<open>ValueError\<close>).
\<close>

definition subprocess_run_check :: "world \<Rightarrow> string list \<Rightarrow> exn + string" where
  "subprocess_run_check w cmd =
     (case subprocess_run w cmd of
        Raises_OSError \<Rightarrow> Inl OSError
      | Returns returncode out \<Rightarrow> if returncode \<noteq> 0 then Inl CalledProcessError else Inr out)"

subsection \<open>The checker\<close>

text \<open>
  The fields of \<^verbatim>\<open>HolidayUpdatesChecker\<close> after construction; \<open>repo_set\<close> says that
  \<^verbatim>\<open>self.repo\<close> is not \<^verbatim>\<open>None\<close>.
\<close>

record checker =
  repo_path :: py_path
  files_path :: py_path
  checker_threshold_days :: int
  dry_run :: bool
  repo_set :: bool

record file_info =
  path :: string
  name :: string
  age_days :: int
  last_modified :: string
  threshold_days :: int
  directory_type :: string

record stats =
  created :: int
  skipped :: int
  errors :: int

record run_result =
  outdated_files :: "file_info list"
  stats :: stats
  timestamp :: string

subsection \<open>Age resolver\<close>

text \<open>The three \<^verbatim>\<open>git log\<close> commands of \<^verbatim>\<open>get_file_age_days\<close>, in order of preference.\<close>

definition git_log_follow :: "py_path \<Rightarrow> string list" where
  "git_log_follow relative_path =
     [''git'', ''log'', ''-1'', ''--format=%ct'', ''--follow'', ''--'', str_path relative_path]"

definition git_log_plain :: "py_path \<Rightarrow> string list" where
  "git_log_plain relative_path =
     [''git'', ''log'', ''-1'', ''--format=%ct'', ''--'', str_path relative_path]"

definition git_log_all :: "py_path \<Rightarrow> string list" where
  "git_log_all relative_path =
     [''git'', ''log'', ''-1'', ''--format=%ct'', ''--all'', ''--'', str_path relative_path]"

definition git_commands :: "py_path \<Rightarrow> string list list" where
  "git_commands relative_path =
     [git_log_follow relative_path, git_log_plain relative_path, git_log_all relative_path]"

text \<open>
  The loop over the commands. \<open>result\<close> is the last completed run (\<open>None\<close> before the
  first); a command that exits with an error is skipped (\<^verbatim>\<open>continue\<close>), a non-blank
  output ends the loop (\<^verbatim>\<open>break\<close>), an \<^verbatim>\<open>OSError\<close> leaves it.
\<close>

fun try_git_commands :: "world \<Rightarrow> string list list \<Rightarrow> string option \<Rightarrow> exn + string option" where
  "try_git_commands w [] result = Inr result"
| "try_git_commands w (cmd # cmds) result =
     (case subprocess_run_check w cmd of
        Inl e \<Rightarrow> (if e = CalledProcessError then try_git_commands w cmds result else Inl e)
      | Inr out \<Rightarrow> (if strip out \<noteq> [] then Inr (Some out) else try_git_commands w cmds (Some out)))"

text \<open>
  \<^verbatim>\<open>round(age.total_seconds() / 86400)\<close>: Python rounds a float to the nearest integer,
  a half to the even neighbour. The age is taken in whole seconds, where the quotient
  is exactly a half only at an odd multiple of 43200.
\<close>

definition round_half_even :: "int \<Rightarrow> int \<Rightarrow> int" where
  "round_half_even a b =
     (let q = a div b; r = a mod b
      in if 2 * r < b then q
         else if b < 2 * r then q + 1
         else if even q then q else q + 1)"

text \<open>The two \<^verbatim>\<open>except\<close> clauses that close both git functions.\<close>

fun reraise :: "exn \<Rightarrow> exn" where
  "reraise CalledProcessError = RuntimeError GitCommandFailed"
| "reraise OSError = RuntimeError FileAccessFailed"
| "reraise e = e"

text \<open>
  The body of the \<^verbatim>\<open>try\<close> statement of \<^verbatim>\<open>get_file_age_days\<close>, with the exceptions
  as they are raised; \<open>get_file_age_days\<close> passes them through the \<^verbatim>\<open>except\<close>
  clauses. A \<^verbatim>\<open>RuntimeError\<close> or \<^verbatim>\<open>ValueError\<close> raised in the body matches neither
  clause. The timestamp is taken to lie in the range of \<^verbatim>\<open>datetime.fromtimestamp\<close>,
  which raises outside it, and both instants in whole seconds since the epoch, where
  the code subtracts local date-times with microseconds.
\<close>

definition age_try_block :: "checker \<Rightarrow> world \<Rightarrow> py_path \<Rightarrow> exn + int" where
  "age_try_block c w file_path =
     (case relative_to file_path (repo_path c) of
        Inl e \<Rightarrow> Inl e
      | Inr relative_path \<Rightarrow>
          (case subprocess_run w [''git'', ''status'', ''--porcelain''] of
             Raises_OSError \<Rightarrow> Inl OSError
           | Returns returncode git_status_out \<Rightarrow>
               if returncode \<noteq> 0 then Inl (RuntimeError GitNotAccessible)
               else
                 (case try_git_commands w (git_commands relative_path) None of
                    Inl e \<Rightarrow> Inl e
                  | Inr None \<Rightarrow> Inl (RuntimeError NoCommitHistory)
                  | Inr (Some out) \<Rightarrow>
                      if strip out = [] then Inl (RuntimeError NoCommitHistory)
                      else
                        (case py_int (strip out) of
                           None \<Rightarrow> Inl ValueError
                         | Some last_commit_timestamp \<Rightarrow>
                             Inr (round_half_even (now w - last_commit_timestamp) 86400)))))"

definition get_file_age_days :: "checker \<Rightarrow> world \<Rightarrow> py_path \<Rightarrow> exn + int" where
  "get_file_age_days c w file_path = map_sum reraise id (age_try_block c w file_path)"

text \<open>
  \<^verbatim>\<open>get_last_commit_date\<close> returns a \<^verbatim>\<open>datetime\<close>; the model returns the timestamp it
  is made from.
\<close>

definition last_commit_try_block :: "checker \<Rightarrow> world \<Rightarrow> py_path \<Rightarrow> exn + int" where
  "last_commit_try_block c w file_path =
     (case relative_to file_path (repo_path c) of
        Inl e \<Rightarrow> Inl e
      | Inr relative_path \<Rightarrow>
          (case subprocess_run_check w (git_log_plain relative_path) of
             Inl e \<Rightarrow> Inl e
           | Inr out \<Rightarrow>
               if strip out \<noteq> [] then
                 (case py_int (strip out) of
                    None \<Rightarrow> Inl ValueError
                  | Some last_commit_timestamp \<Rightarrow> Inr last_commit_timestamp)
               else Inl (RuntimeError NoCommitHistory)))"

definition get_last_commit_date :: "checker \<Rightarrow> world \<Rightarrow> py_path \<Rightarrow> exn + int" where
  "get_last_commit_date c w file_path = map_sum reraise id (last_commit_try_block c w file_path)"

subsection \<open>Directory scanner\<close>

definition extract_name_from_path :: "py_path \<Rightarrow> string" where
  "extract_name_from_path file_path = str_title (replace_char (CHR ''_'') (CHR '' '') (stem file_path))"

text \<open>
  \<^verbatim>\<open>directory.glob("*.py")\<close>: the entries of the directory whose name ends in
  \<^verbatim>\<open>.py\<close>, each joined to the directory, in the order of the listing.
\<close>

definition glob_py :: "world \<Rightarrow> py_path \<Rightarrow> py_path list" where
  "glob_py w directory =
     map (\<lambda>n. directory\<lparr>parts := parts directory @ [n]\<rparr>)
         (filter (\<lambda>n. endswith n ''.py'') (scandir w directory))"

definition python_files :: "world \<Rightarrow> py_path \<Rightarrow> py_path list" where
  "python_files w directory =
     (let all_files = glob_py w directory
      in filter (\<lambda>f. path_name f \<noteq> ''__init__.py'') all_files)"

text \<open>
  The \<^verbatim>\<open>for\<close> loop of \<^verbatim>\<open>scan_directory\<close>; \<open>outdated\<close> is the list built so far. No
  exception is caught here. The branch of an up-to-date file evaluates
  \<^verbatim>\<open>relative_to\<close> for its log line.
\<close>

fun scan_files ::
  "checker \<Rightarrow> world \<Rightarrow> py_path \<Rightarrow> int \<Rightarrow> py_path list \<Rightarrow> file_info list \<Rightarrow> exn + file_info list"
where
  "scan_files c w directory threshold [] outdated = Inr outdated"
| "scan_files c w directory threshold (file_path # rest) outdated =
     (case get_file_age_days c w file_path of
        Inl e \<Rightarrow> Inl e
      | Inr age \<Rightarrow>
          if age > threshold then
            (case get_last_commit_date c w file_path of
               Inl e \<Rightarrow> Inl e
             | Inr last_commit \<Rightarrow>
                 (case relative_to file_path (repo_path c) of
                    Inl e \<Rightarrow> Inl e
                  | Inr rel \<Rightarrow>
                      scan_files c w directory threshold rest
                        (outdated @
                          [\<lparr>path = str_path rel,
                            name = extract_name_from_path file_path,
                            age_days = age,
                            last_modified = isoformat w last_commit,
                            threshold_days = threshold,
                            directory_type = path_name directory\<rparr>])))
          else
            (case relative_to file_path (repo_path c) of
               Inl e \<Rightarrow> Inl e
             | Inr rel \<Rightarrow> scan_files c w directory threshold rest outdated))"

definition scan_directory :: "checker \<Rightarrow> world \<Rightarrow> py_path \<Rightarrow> int \<Rightarrow> exn + file_info list" where
  "scan_directory c w directory threshold =
     (if \<not> path_exists w directory then Inr []
      else scan_files c w directory threshold (python_files w directory) [])"

definition check_freshness :: "checker \<Rightarrow> world \<Rightarrow> exn + file_info list" where
  "check_freshness c w =
     (let files_dir = joinpath (repo_path c) (files_path c)
      in scan_directory c w files_dir (checker_threshold_days c))"

subsection \<open>Issue tracker\<close>

text \<open>
  The repository object of PyGithub, as the state behind \<^verbatim>\<open>self.repo\<close>: the open
  issues, the number the next issue gets, a script of what the calls to come do, and a
  log of the calls made. Each call takes the head of the script (an empty script lets
  every call succeed). \<open>Fault e k\<close> makes the call raise \<open>e\<close>; the list of open
  issues is fetched page by page while it is being read, so a search raises only after
  the first \<open>k\<close> issues have been read.
\<close>

record issue =
  title :: string
  number :: nat
  body :: string
  labels :: "string list"

datatype fault = Fault exn nat

datatype api_call = GetIssues | CreateIssue string

record tracker =
  open_issues :: "issue list"
  next_number :: nat
  faults :: "fault option list"
  calls :: "api_call list"

definition next_fault :: "tracker \<Rightarrow> fault option \<times> tracker" where
  "next_fault tr =
     (case faults tr of
        [] \<Rightarrow> (None, tr)
      | f # fs \<Rightarrow> (f, tr\<lparr>faults := fs\<rparr>))"

text \<open>
  \<^verbatim>\<open>repo.get_issues(state="open")\<close>: the issues a reader gets, and the exception that
  ends the reading early, if any.
\<close>

definition get_issues_open :: "tracker \<Rightarrow> (issue list \<times> exn option) \<times> tracker" where
  "get_issues_open tr =
     (case next_fault (tr\<lparr>calls := calls tr @ [GetIssues]\<rparr>) of
        (None, tr') \<Rightarrow> ((open_issues tr', None), tr')
      | (Some (Fault e k), tr') \<Rightarrow> ((take k (open_issues tr'), Some e), tr'))"

text \<open>\<^verbatim>\<open>repo.create_issue(title=..., body=..., labels=...)\<close>.\<close>

definition create_issue ::
  "tracker \<Rightarrow> string \<Rightarrow> string \<Rightarrow> string list \<Rightarrow> (exn + issue) \<times> tracker" where
  "create_issue tr t b ls =
     (case next_fault (tr\<lparr>calls := calls tr @ [CreateIssue t]\<rparr>) of
        (Some (Fault e k), tr') \<Rightarrow> (Inl e, tr')
      | (None, tr') \<Rightarrow>
          (let i = \<lparr>title = t, number = next_number tr', body = b, labels = ls\<rparr>
           in (Inr i, tr'\<lparr>open_issues := open_issues tr' @ [i],
                          next_number := Suc (next_number tr')\<rparr>)))"

subsection \<open>Issue reconciler\<close>

definition create_issue_title :: "file_info \<Rightarrow> string" where
  "create_issue_title info = ''[Holiday Updates] Update required: '' @ name info"

text \<open>
  \<^verbatim>\<open>template.format(...)\<close> with keyword arguments: a field that is none of them is a
  \<^verbatim>\<open>KeyError\<close>, raised at the first such field.
\<close>

fun format_template :: "(string \<times> string) list \<Rightarrow> piece list \<Rightarrow> exn + string" where
  "format_template kwargs [] = Inr []"
| "format_template kwargs (Text t # ps) =
     (case format_template kwargs ps of Inl e \<Rightarrow> Inl e | Inr r \<Rightarrow> Inr (t @ r))"
| "format_template kwargs (Field k # ps) =
     (case map_of kwargs k of
        None \<Rightarrow> Inl (KeyError k)
      | Some v \<Rightarrow> (case format_template kwargs ps of Inl e \<Rightarrow> Inl e | Inr r \<Rightarrow> Inr (v @ r)))"

definition create_issue_body :: "world \<Rightarrow> file_info \<Rightarrow> exn + string" where
  "create_issue_body w info =
     (case format_date w (last_modified info) of
        None \<Rightarrow> Inl ValueError
      | Some formatted_date \<Rightarrow>
          (case template_file w of
             FileNotFound \<Rightarrow>
               Inr (''File '' @ path info @ '' needs updating (last modified: ''
                      @ formatted_date @ '')'')
           | ReadFails \<Rightarrow> Inl OSError
           | Contents template \<Rightarrow>
               format_template
                 [(''path'', path info),
                  (''formatted_date'', formatted_date),
                  (''age_days'', show_int (age_days info)),
                  (''threshold_days'', show_int (threshold_days info)),
                  (''directory_type'', str_title (directory_type info)),
                  (''name'', name info),
                  (''overdue_days'', show_int (age_days info - threshold_days info))]
                 template))"

text \<open>
  \<^verbatim>\<open>find_existing_issue\<close>: the first open issue with the title. A \<^verbatim>\<open>GithubException\<close>
  is caught and the function goes on to \<^verbatim>\<open>return None\<close>; any other exception leaves
  the function.
\<close>

definition find_existing_issue ::
  "checker \<Rightarrow> file_info \<Rightarrow> tracker \<Rightarrow> (exn + issue option) \<times> tracker" where
  "find_existing_issue c info tr =
     (if \<not> repo_set c then (Inr None, tr)
      else
        (case get_issues_open tr of
           ((issues, raised), tr') \<Rightarrow>
             (case find (\<lambda>i. title i = create_issue_title info) issues of
                Some i \<Rightarrow> (Inr (Some i), tr')
              | None \<Rightarrow>
                  (case raised of
                     None \<Rightarrow> (Inr None, tr')
                   | Some e \<Rightarrow> (if e = GithubException then Inr None else Inl e, tr')))))"

definition issue_labels :: "string list" where
  "issue_labels = [''holiday-updates'', ''maintenance'', ''data-update'']"

text \<open>
  \<^verbatim>\<open>create_github_issue\<close>: \<open>Inr True\<close> and \<open>Inr False\<close> are its two return values,
  \<open>Inl e\<close> an exception that it does not catch.
\<close>

definition create_github_issue ::
  "checker \<Rightarrow> world \<Rightarrow> file_info \<Rightarrow> tracker \<Rightarrow> (exn + bool) \<times> tracker" where
  "create_github_issue c w info tr =
     (if dry_run c then (Inr True, tr)
      else if \<not> repo_set c then (Inr False, tr)
      else
        (case find_existing_issue c info tr of
           (Inl e, tr1) \<Rightarrow> (Inl e, tr1)
         | (Inr (Some existing_issue), tr1) \<Rightarrow> (Inr True, tr1)
         | (Inr None, tr1) \<Rightarrow>
             (case create_issue_body w info of
                Inl e \<Rightarrow> (if e = GithubException then Inr False else Inl e, tr1)
              | Inr b \<Rightarrow>
                  (case create_issue tr1 (create_issue_title info) b issue_labels of
                     (Inl e, tr2) \<Rightarrow> (if e = GithubException then Inr False else Inl e, tr2)
                   | (Inr i, tr2) \<Rightarrow> (Inr True, tr2)))))"

subsection \<open>Run orchestrator\<close>

text \<open>
  The loop of \<^verbatim>\<open>process_outdated_files\<close>; \<^verbatim>\<open>except Exception\<close> catches every value
  of \<open>exn\<close>.
\<close>

fun process_loop ::
  "checker \<Rightarrow> world \<Rightarrow> file_info list \<Rightarrow> stats \<Rightarrow> tracker \<Rightarrow> stats \<times> tracker" where
  "process_loop c w [] st tr = (st, tr)"
| "process_loop c w (info # rest) st tr =
     (case create_github_issue c w info tr of
        (Inr ok, tr') \<Rightarrow>
          if ok then process_loop c w rest (st\<lparr>created := created st + 1\<rparr>) tr'
          else process_loop c w rest (st\<lparr>errors := errors st + 1\<rparr>) tr'
      | (Inl e, tr') \<Rightarrow> process_loop c w rest (st\<lparr>errors := errors st + 1\<rparr>) tr')"

definition process_outdated_files ::
  "checker \<Rightarrow> world \<Rightarrow> file_info list \<Rightarrow> tracker \<Rightarrow> stats \<times> tracker" where
  "process_outdated_files c w outdated tr =
     process_loop c w outdated \<lparr>created = 0, skipped = 0, errors = 0\<rparr> tr"

definition run :: "checker \<Rightarrow> world \<Rightarrow> tracker \<Rightarrow> (exn + run_result) \<times> tracker" where
  "run c w tr =
     (case check_freshness c w of
        Inl e \<Rightarrow> (Inl e, tr)
      | Inr outdated \<Rightarrow>
          (case process_outdated_files c w outdated tr of
             (st, tr') \<Rightarrow>
               (Inr \<lparr>outdated_files = outdated, stats = st,
                     timestamp = isoformat w (now w)\<rparr>, tr')))"

subsection \<open>Notions used in the statements\<close>

text \<open>
  A file is outdated when its age resolves and exceeds the threshold; \<open>relative_str\<close>
  is the path string a record carries; \<open>file_record\<close> is the record the scanner
  builds for a file.
\<close>

definition is_outdated :: "checker \<Rightarrow> world \<Rightarrow> int \<Rightarrow> py_path \<Rightarrow> bool" where
  "is_outdated c w threshold f =
     (case get_file_age_days c w f of Inl e \<Rightarrow> False | Inr age \<Rightarrow> age > threshold)"

definition relative_str :: "checker \<Rightarrow> py_path \<Rightarrow> string" where
  "relative_str c f = (case relative_to f (repo_path c) of Inl e \<Rightarrow> [] | Inr rel \<Rightarrow> str_path rel)"

definition file_record :: "checker \<Rightarrow> world \<Rightarrow> py_path \<Rightarrow> int \<Rightarrow> py_path \<Rightarrow> file_info" where
  "file_record c w directory threshold f =
     \<lparr>path = relative_str c f,
      name = extract_name_from_path f,
      age_days = (case get_file_age_days c w f of Inl e \<Rightarrow> 0 | Inr age \<Rightarrow> age),
      last_modified = isoformat w (case get_last_commit_date c w f of Inl e \<Rightarrow> 0 | Inr t \<Rightarrow> t),
      threshold_days = threshold,
      directory_type = path_name directory\<rparr>"

text \<open>
  What one git command contributes to the age resolver's loop: a non-blank output, or
  nothing (it exits with an error, or its output is blank).
\<close>

definition yields :: "world \<Rightarrow> string list \<Rightarrow> string \<Rightarrow> bool" where
  "yields w cmd out = (subprocess_run w cmd = Returns 0 out \<and> strip out \<noteq> [])"

definition yields_nothing :: "world \<Rightarrow> string list \<Rightarrow> bool" where
  "yields_nothing w cmd =
     (case subprocess_run w cmd of
        Raises_OSError \<Rightarrow> False
      | Returns returncode out \<Rightarrow> returncode \<noteq> 0 \<or> strip out = [])"

definition age_of_output :: "world \<Rightarrow> string \<Rightarrow> exn + int" where
  "age_of_output w out =
     (case py_int (strip out) of
        None \<Rightarrow> Inl ValueError
      | Some t \<Rightarrow> Inr (round_half_even (now w - t) 86400))"

definition searches :: "tracker \<Rightarrow> nat" where
  "searches tr = length (filter (\<lambda>a. a = GetIssues) (calls tr))"

text \<open>The next call to the tracker raises nothing.\<close>

definition search_succeeds :: "tracker \<Rightarrow> bool" where
  "search_succeeds tr = (case faults tr of [] \<Rightarrow> True | f # fs \<Rightarrow> f = None)"

text \<open>The lexicographic order of strings by character code.\<close>

fun path_le :: "string \<Rightarrow> string \<Rightarrow> bool" where
  "path_le [] ys = True"
| "path_le (x # xs) [] = False"
| "path_le (x # xs) (y # ys) =
     ((of_char x :: nat) < of_char y \<or> (x = y \<and> path_le xs ys))"

subsection \<open>A sample repository\<close>

text \<open>
  The workspace \<^verbatim>\<open>/github/workspace\<close> with the directory \<^verbatim>\<open>holidays/countries\<close>,
  listed by the operating system as \<^verbatim>\<open>zambia.py\<close>, \<^verbatim>\<open>__init__.py\<close>, \<^verbatim>\<open>aruba.py\<close>,
  \<^verbatim>\<open>README.md\<close>. The clock stands at 1700000000; \<^verbatim>\<open>aruba.py\<close> was committed 200
  days before, \<^verbatim>\<open>zambia.py\<close> 10 days before.
\<close>

definition ex_repo :: py_path where
  "ex_repo = \<lparr>absolute = True, parts = [''github'', ''workspace'']\<rparr>"

definition ex_dir :: py_path where
  "ex_dir = \<lparr>absolute = True, parts = [''github'', ''workspace'', ''holidays'', ''countries'']\<rparr>"

definition ex_aruba :: py_path where
  "ex_aruba =
     \<lparr>absolute = True,
      parts = [''github'', ''workspace'', ''holidays'', ''countries'', ''aruba.py'']\<rparr>"

definition ex_zambia :: py_path where
  "ex_zambia =
     \<lparr>absolute = True,
      parts = [''github'', ''workspace'', ''holidays'', ''countries'', ''zambia.py'']\<rparr>"

definition ex_checker :: checker where
  "ex_checker =
     \<lparr>repo_path = ex_repo,
      files_path = \<lparr>absolute = False, parts = [''holidays'', ''countries'']\<rparr>,
      checker_threshold_days = 180,
      dry_run = False,
      repo_set = True\<rparr>"

definition ex_git :: "string list \<Rightarrow> proc" where
  "ex_git argv =
     (if argv = [''git'', ''status'', ''--porcelain''] then Returns 0 []
      else if last argv = ''holidays/countries/aruba.py'' then Returns 0 ''1682720000''
      else if last argv = ''holidays/countries/zambia.py'' then Returns 0 ''1699136000''
      else Returns 128 [])"

definition ex_world :: world where
  "ex_world =
     \<lparr>subprocess_run = ex_git,
      path_exists = (\<lambda>p. p = ex_dir),
      scandir = (\<lambda>p. if p = ex_dir
                      then [''zambia.py'', ''__init__.py'', ''aruba.py'', ''README.md'']
                      else []),
      now = 1700000000,
      isoformat = (\<lambda>t. if t = 1682720000 then ''2023-04-28T22:13:20''
                        else if t = 1699136000 then ''2023-11-04T22:13:20''
                        else ''2023-11-14T22:13:20''),
      format_date = (\<lambda>s. if s = ''2023-04-28T22:13:20'' then Some ''April 28, 2023''
                          else if s = ''2023-11-04T22:13:20'' then Some ''November 04, 2023''
                          else None),
      template_file = FileNotFound\<rparr>"

text \<open>The same repository where git knows \<^verbatim>\<open>aruba.py\<close> only with \<^verbatim>\<open>--all\<close>.\<close>

definition ex_git_all :: "string list \<Rightarrow> proc" where
  "ex_git_all argv =
     (if argv = [''git'', ''log'', ''-1'', ''--format=%ct'', ''--all'', ''--'',
                 ''holidays/countries/aruba.py'']
      then Returns 0 ''1682720000''
      else Returns 0 [])"

definition ex_world_all :: world where
  "ex_world_all = ex_world\<lparr>subprocess_run := ex_git_all\<rparr>"

text \<open>The same repository where \<^verbatim>\<open>aruba.py\<close> has no commit yet.\<close>

definition ex_git_untracked :: "string list \<Rightarrow> proc" where
  "ex_git_untracked argv =
     (if argv = [''git'', ''status'', ''--porcelain''] then Returns 0 []
      else if last argv = ''holidays/countries/zambia.py'' then Returns 0 ''1699136000''
      else Returns 0 [])"

definition ex_world_untracked :: world where
  "ex_world_untracked = ex_world\<lparr>subprocess_run := ex_git_untracked\<rparr>"

definition ex_aruba_info :: file_info where
  "ex_aruba_info =
     \<lparr>path = ''holidays/countries/aruba.py'', name = ''Aruba'', age_days = 200,
      last_modified = ''2023-04-28T22:13:20'', threshold_days = 180,
      directory_type = ''countries''\<rparr>"

definition ex_zambia_info :: file_info where
  "ex_zambia_info =
     \<lparr>path = ''holidays/countries/zambia.py'', name = ''Zambia'', age_days = 10,
      last_modified = ''2023-11-04T22:13:20'', threshold_days = 5,
      directory_type = ''countries''\<rparr>"

definition ex_angola_info :: file_info where
  "ex_angola_info =
     \<lparr>path = ''holidays/countries/angola.py'', name = ''Angola'', age_days = 200,
      last_modified = ''2023-04-28T22:13:20'', threshold_days = 180,
      directory_type = ''countries''\<rparr>"

definition ex_tracker :: tracker where
  "ex_tracker = \<lparr>open_issues = [], next_number = 1, faults = [], calls = []\<rparr>"

definition ex_aruba_issue :: issue where
  "ex_aruba_issue =
     \<lparr>title = ''[Holiday Updates] Update required: Aruba'', number = 7,
      body = ''File holidays/countries/aruba.py needs updating (last modified: April 28, 2023)'',
      labels = issue_labels\<rparr>"


definition ex_dry_checker :: checker where
  "ex_dry_checker = ex_checker\<lparr>dry_run := True\<rparr>"

definition ex_tracker_open :: tracker where
  "ex_tracker_open = \<lparr>open_issues = [ex_aruba_issue], next_number = 8, faults = [], calls = []\<rparr>"

definition ex_tracker_search_fails :: tracker where
  "ex_tracker_search_fails = ex_tracker_open\<lparr>faults := [Some (Fault GithubException 0)]\<rparr>"

definition ex_tracker_second_create_fails :: tracker where
  "ex_tracker_second_create_fails =
     ex_tracker\<lparr>faults := [None, None, None, Some (Fault GithubException 0)]\<rparr>"

definition ex_tracker_create_fails :: tracker where
  "ex_tracker_create_fails = ex_tracker\<lparr>faults := [None, Some (Fault OtherException 0)]\<rparr>"

text \<open>The sample world with a body template that names a field \<^verbatim>\<open>format\<close> is not given.\<close>

definition ex_world_bad_template :: world where
  "ex_world_bad_template =
     ex_world\<lparr>template_file :=
       Contents [Text ''File '', Field ''path'', Text '' is '', Field ''days_old'',
                 Text '' days old'']\<rparr>"

section \<open>Properties\<close>

subsection \<open>Scanning: general lemmas\<close>

lemma scan_files_Inr:
  "scan_files c w d T fs acc = Inr recs \<Longrightarrow>
     recs = acc @ map (file_record c w d T) (filter (is_outdated c w T) fs)"
proof (induction fs arbitrary: acc)
  case Nil
  then show ?case by simp
next
  case (Cons f fs)
  show ?case
  proof (cases "get_file_age_days c w f")
    case (Inl e)
    with Cons.prems show ?thesis by simp
  next
    case (Inr age)
    show ?thesis
    proof (cases "age > T")
      case True
      with Cons.prems Inr obtain t rel where
        t: "get_last_commit_date c w f = Inr t" and rel: "relative_to f (repo_path c) = Inr rel"
        and rest: "scan_files c w d T fs
           (acc @ [\<lparr>path = str_path rel, name = extract_name_from_path f, age_days = age,
                     last_modified = isoformat w t, threshold_days = T,
                     directory_type = path_name d\<rparr>]) = Inr recs"
        by (auto split: sum.splits)
      from Cons.IH [OF rest] Inr True t rel show ?thesis
        by (simp add: is_outdated_def file_record_def relative_str_def)
    next
      case False
      with Cons.prems Inr have rest: "scan_files c w d T fs acc = Inr recs"
        by (auto split: sum.splits)
      from Cons.IH [OF rest] Inr False show ?thesis
        by (simp add: is_outdated_def)
    qed
  qed
qed

lemma scan_files_age_fails:
  "f \<in> set fs \<Longrightarrow> get_file_age_days c w f = Inl e \<Longrightarrow> \<exists>e'. scan_files c w d T fs acc = Inl e'"
proof (induction fs arbitrary: acc)
  case Nil
  then show ?case by simp
next
  case (Cons g fs)
  show ?case
  proof (cases "g = f")
    case True
    with Cons.prems show ?thesis by simp
  next
    case False
    with Cons.prems have "f \<in> set fs" by simp
    from Cons.IH [OF this Cons.prems(2)] show ?thesis
      by (simp split: sum.splits)
  qed
qed

lemma age_Inr_relative:
  "get_file_age_days c w f = Inr a \<Longrightarrow> \<exists>rel. relative_to f (repo_path c) = Inr rel"
  by (cases "relative_to f (repo_path c)") (auto simp: get_file_age_days_def age_try_block_def)

lemma join_parts_snoc:
  "join_parts (pre @ [n]) = (if pre = [] then n else join_parts pre @ ''/'' @ n)"
  by (induction pre rule: join_parts.induct) auto

lemma join_parts_snoc_inject:
  "join_parts (pre @ [n]) = join_parts (pre @ [m]) \<Longrightarrow> n = m"
  by (simp add: join_parts_snoc split: if_splits)

lemma glob_relative_inject:
  assumes f: "f \<in> set (glob_py w d)" and g: "g \<in> set (glob_py w d)"
    and rf: "relative_to f base = Inr rel" and rg: "relative_to g base = Inr rel'"
    and eq: "str_path rel = str_path rel'"
  shows "f = g"
proof -
  from f obtain n where fn: "f = d\<lparr>parts := parts d @ [n]\<rparr>" by (auto simp: glob_py_def)
  from g obtain m where gm: "g = d\<lparr>parts := parts d @ [m]\<rparr>" by (auto simp: glob_py_def)
  let ?k = "length (parts base)"
  from rf fn have tf: "take ?k (parts d @ [n]) = parts base"
    and relf: "rel = \<lparr>absolute = False, parts = drop ?k (parts d @ [n])\<rparr>"
    by (auto simp: relative_to_def split: if_splits)
  from rg gm have tg: "take ?k (parts d @ [m]) = parts base"
    and relg: "rel' = \<lparr>absolute = False, parts = drop ?k (parts d @ [m])\<rparr>"
    by (auto simp: relative_to_def split: if_splits)
  have "n = m"
  proof (cases "?k \<le> length (parts d)")
    case True
    with relf relg have pf: "parts rel = drop ?k (parts d) @ [n]" "absolute rel = False"
      and pg: "parts rel' = drop ?k (parts d) @ [m]" "absolute rel' = False"
      by simp_all
    from eq have "join_parts (parts rel) = join_parts (parts rel')"
      unfolding str_path_def pf pg by simp
    then have "join_parts (drop ?k (parts d) @ [n]) = join_parts (drop ?k (parts d) @ [m])"
      unfolding pf pg .
    then show ?thesis by (rule join_parts_snoc_inject)
  next
    case False
    then have "take ?k (parts d @ [n]) = parts d @ [n]" "take ?k (parts d @ [m]) = parts d @ [m]"
      by simp_all
    with tf tg show ?thesis by simp
  qed
  with fn gm show ?thesis by simp
qed

lemma python_files_glob: "f \<in> set (python_files w d) \<Longrightarrow> f \<in> set (glob_py w d)"
  by (simp add: python_files_def)

lemma scan_directory_Inr:
  assumes "scan_directory c w d T = Inr recs" and "path_exists w d"
  shows "recs = map (file_record c w d T) (filter (is_outdated c w T) (python_files w d))"
  using assms scan_files_Inr [of c w d T "python_files w d" "[]" recs]
  by (simp add: scan_directory_def)

lemma scan_files_passed:
  assumes "\<forall>g \<in> set pre. \<exists>a. get_file_age_days c w g = Inr a \<and>
             (a > T \<longrightarrow> (\<exists>t. get_last_commit_date c w g = Inr t))"
  shows "\<exists>acc'. scan_files c w d T (pre @ rest) acc = scan_files c w d T rest acc'"
  using assms
proof (induction pre arbitrary: acc)
  case Nil
  then show ?case by auto
next
  case (Cons g pre)
  then obtain a where a: "get_file_age_days c w g = Inr a"
    and t: "a > T \<longrightarrow> (\<exists>t. get_last_commit_date c w g = Inr t)" by auto
  from a obtain rel where rel: "relative_to g (repo_path c) = Inr rel"
    using age_Inr_relative by blast
  from Cons.prems have pre: "\<forall>g \<in> set pre. \<exists>a. get_file_age_days c w g = Inr a \<and>
             (a > T \<longrightarrow> (\<exists>t. get_last_commit_date c w g = Inr t))" by simp
  show ?case
  proof (cases "a > T")
    case True
    with t obtain t' where t': "get_last_commit_date c w g = Inr t'" by auto
    from Cons.IH [OF pre] a rel True t' show ?thesis by simp
  next
    case False
    from Cons.IH [OF pre] a rel False show ?thesis by simp
  qed
qed

lemma python_files_listing:
  "python_files w d =
     map (\<lambda>n. d\<lparr>parts := parts d @ [n]\<rparr>)
       (filter (\<lambda>n. endswith n ''.py'' \<and> n \<noteq> ''__init__.py'') (scandir w d))"
  by (simp add: python_files_def glob_py_def filter_map o_def path_name_def conj_commute)

subsection \<open>The sample repository, evaluated\<close>

lemma ex_python_files: "python_files ex_world ex_dir = [ex_zambia, ex_aruba]"
  by (simp add: python_files_def glob_py_def ex_world_def ex_dir_def ex_zambia_def ex_aruba_def
      endswith_def path_name_def)

lemma ex_python_files_untracked: "python_files ex_world_untracked ex_dir = [ex_zambia, ex_aruba]"
  using ex_python_files
  by (simp add: python_files_def glob_py_def ex_world_untracked_def ex_world_def)

lemma ex_relative_aruba:
  "relative_to ex_aruba ex_repo =
     Inr \<lparr>absolute = False, parts = [''holidays'', ''countries'', ''aruba.py'']\<rparr>"
  by (simp add: relative_to_def ex_aruba_def ex_repo_def)

lemma ex_relative_zambia:
  "relative_to ex_zambia ex_repo =
     Inr \<lparr>absolute = False, parts = [''holidays'', ''countries'', ''zambia.py'']\<rparr>"
  by (simp add: relative_to_def ex_zambia_def ex_repo_def)

lemma ex_str_aruba:
  "str_path \<lparr>absolute = False, parts = [''holidays'', ''countries'', ''aruba.py'']\<rparr>
     = ''holidays/countries/aruba.py''"
  by (simp add: str_path_def)

lemma ex_str_zambia:
  "str_path \<lparr>absolute = False, parts = [''holidays'', ''countries'', ''zambia.py'']\<rparr>
     = ''holidays/countries/zambia.py''"
  by (simp add: str_path_def)

lemma ex_strip_aruba: "strip ''1682720000'' = ''1682720000''"
  by (simp add: strip_def whitespace_def)

lemma ex_strip_zambia: "strip ''1699136000'' = ''1699136000''"
  by (simp add: strip_def whitespace_def)

lemma ex_strip_empty: "strip [] = []"
  by (simp add: strip_def)

lemma ex_int_aruba: "py_int ''1682720000'' = Some 1682720000"
  by (simp add: py_int_def digit_val_def)

lemma ex_int_zambia: "py_int ''1699136000'' = Some 1699136000"
  by (simp add: py_int_def digit_val_def)

lemma ex_round_aruba: "round_half_even 17280000 86400 = 200"
  by (simp add: round_half_even_def)

lemma ex_round_zambia: "round_half_even 864000 86400 = 10"
  by (simp add: round_half_even_def)

lemmas ex_simps =
  ex_relative_aruba ex_relative_zambia ex_str_aruba ex_str_zambia ex_strip_aruba
  ex_strip_zambia ex_strip_empty ex_int_aruba ex_int_zambia ex_round_aruba ex_round_zambia

lemma ex_age_aruba: "get_file_age_days ex_checker ex_world ex_aruba = Inr 200"
  by (simp add: get_file_age_days_def age_try_block_def ex_checker_def ex_world_def ex_git_def
      git_commands_def git_log_follow_def git_log_plain_def git_log_all_def
      subprocess_run_check_def ex_simps)

lemma ex_age_zambia: "get_file_age_days ex_checker ex_world ex_zambia = Inr 10"
  by (simp add: get_file_age_days_def age_try_block_def ex_checker_def ex_world_def ex_git_def
      git_commands_def git_log_follow_def git_log_plain_def git_log_all_def
      subprocess_run_check_def ex_simps)

lemma ex_last_commit_aruba: "get_last_commit_date ex_checker ex_world ex_aruba = Inr 1682720000"
  by (simp add: get_last_commit_date_def last_commit_try_block_def ex_checker_def ex_world_def
      ex_git_def git_log_plain_def subprocess_run_check_def ex_simps)

lemma ex_last_commit_zambia: "get_last_commit_date ex_checker ex_world ex_zambia = Inr 1699136000"
  by (simp add: get_last_commit_date_def last_commit_try_block_def ex_checker_def ex_world_def
      ex_git_def git_log_plain_def subprocess_run_check_def ex_simps)

lemma ex_name_aruba: "extract_name_from_path ex_aruba = ''Aruba''"
  by (simp add: extract_name_from_path_def stem_def path_name_def ex_aruba_def rfind_def
      replace_char_def str_title_def lower_char_def upper_char_def is_cased_def
      ascii_lowercase_def ascii_uppercase_def)

lemma ex_name_zambia: "extract_name_from_path ex_zambia = ''Zambia''"
  by (simp add: extract_name_from_path_def stem_def path_name_def ex_zambia_def rfind_def
      replace_char_def str_title_def lower_char_def upper_char_def is_cased_def
      ascii_lowercase_def ascii_uppercase_def)

lemma ex_repo_path: "repo_path ex_checker = ex_repo"
  by (simp add: ex_checker_def)

lemma ex_dir_name: "path_name ex_dir = ''countries''"
  by (simp add: path_name_def ex_dir_def)

lemma ex_scan_180: "scan_directory ex_checker ex_world ex_dir 180 = Inr [ex_aruba_info]"
  by (simp add: scan_directory_def ex_python_files ex_age_aruba ex_age_zambia
      ex_last_commit_aruba ex_repo_path ex_simps ex_name_aruba ex_dir_name ex_aruba_info_def)
    (simp add: ex_world_def)

lemma ex_scan_5:
  "scan_directory ex_checker ex_world ex_dir 5
     = Inr [ex_zambia_info, ex_aruba_info\<lparr>threshold_days := 5\<rparr>]"
  by (simp add: scan_directory_def ex_python_files ex_age_aruba ex_age_zambia
      ex_last_commit_aruba ex_last_commit_zambia ex_repo_path ex_simps ex_name_aruba
      ex_name_zambia ex_dir_name ex_aruba_info_def ex_zambia_info_def)
    (simp add: ex_world_def)

lemma ex_age_zambia_untracked:
  "get_file_age_days ex_checker ex_world_untracked ex_zambia = Inr 10"
  by (simp add: get_file_age_days_def age_try_block_def ex_checker_def ex_world_untracked_def
      ex_world_def ex_git_untracked_def git_commands_def git_log_follow_def git_log_plain_def git_log_all_def
      subprocess_run_check_def ex_simps)

lemma ex_last_commit_zambia_untracked:
  "get_last_commit_date ex_checker ex_world_untracked ex_zambia = Inr 1699136000"
  by (simp add: get_last_commit_date_def last_commit_try_block_def ex_checker_def
      ex_world_untracked_def ex_world_def ex_git_untracked_def git_log_plain_def
      subprocess_run_check_def ex_simps)

lemma ex_age_aruba_untracked:
  "get_file_age_days ex_checker ex_world_untracked ex_aruba = Inl (RuntimeError NoCommitHistory)"
  by (simp add: get_file_age_days_def age_try_block_def ex_checker_def ex_world_untracked_def
      ex_world_def ex_git_untracked_def git_commands_def git_log_follow_def git_log_plain_def git_log_all_def
      subprocess_run_check_def ex_simps)

lemma ex_exists: "path_exists ex_world ex_dir" "path_exists ex_world_untracked ex_dir"
  by (simp_all add: ex_world_untracked_def ex_world_def)

subsection \<open>Directory scanner\<close>

text \<open>
  C1. A scan that returns has resolved the age of every eligible file. For such a file
  with age \<open>A\<close> and the threshold \<open>T\<close>, the returned list holds a record with the
  file's relative path if and only if \<open>T < A\<close>; a file whose age equals the threshold
  is not in the list.
\<close>

theorem scan_directory_outdated_iff:
  assumes scan: "scan_directory c w directory T = Inr recs"
    and ex: "path_exists w directory"
    and f: "f \<in> set (python_files w directory)"
    and age: "get_file_age_days c w f = Inr A"
  shows "\<exists>rel. relative_to f (repo_path c) = Inr rel \<and>
           ((\<exists>r \<in> set recs. path r = str_path rel) \<longleftrightarrow> T < A)"
proof -
  from age obtain rel where rel: "relative_to f (repo_path c) = Inr rel"
    using age_Inr_relative by blast
  have recs: "recs = map (file_record c w directory T)
                  (filter (is_outdated c w T) (python_files w directory))"
    using scan ex by (rule scan_directory_Inr)
  have "(\<exists>r \<in> set recs. path r = str_path rel) \<longleftrightarrow> T < A"
  proof
    assume "\<exists>r \<in> set recs. path r = str_path rel"
    then obtain g where g: "g \<in> set (python_files w directory)"
      and out: "is_outdated c w T g"
      and p: "path (file_record c w directory T g) = str_path rel"
      unfolding recs by auto
    from out obtain B where B: "get_file_age_days c w g = Inr B" and TB: "T < B"
      by (auto simp: is_outdated_def split: sum.splits)
    from B obtain rel' where rel': "relative_to g (repo_path c) = Inr rel'"
      using age_Inr_relative by blast
    from p rel' have "str_path rel' = str_path rel"
      by (simp add: file_record_def relative_str_def)
    with glob_relative_inject [OF python_files_glob [OF g] python_files_glob [OF f] rel' rel]
    have "g = f" by simp
    with B age TB show "T < A" by simp
  next
    assume "T < A"
    with age have "is_outdated c w T f" by (simp add: is_outdated_def)
    with f have "file_record c w directory T f \<in> set recs" unfolding recs by simp
    moreover have "path (file_record c w directory T f) = str_path rel"
      using rel by (simp add: file_record_def relative_str_def)
    ultimately show "\<exists>r \<in> set recs. path r = str_path rel" by blast
  qed
  with rel show ?thesis by blast
qed

theorem scan_directory_outdated_iff_witness:
  "scan_directory ex_checker ex_world ex_dir 180 = Inr [ex_aruba_info] \<and>
   path_exists ex_world ex_dir \<and>
   ex_aruba \<in> set (python_files ex_world ex_dir) \<and>
   get_file_age_days ex_checker ex_world ex_aruba = Inr 200 \<and>
   (\<exists>rel. relative_to ex_aruba (repo_path ex_checker) = Inr rel \<and>
      ((\<exists>r \<in> set [ex_aruba_info]. path r = str_path rel) \<longleftrightarrow> (180::int) < 200))"
proof -
  have f: "ex_aruba \<in> set (python_files ex_world ex_dir)"
    by (simp add: ex_python_files)
  from scan_directory_outdated_iff [OF ex_scan_180 ex_exists(1) f ex_age_aruba]
  show ?thesis using ex_scan_180 ex_exists(1) f ex_age_aruba by simp
qed

text \<open>
  C5. When the age of one eligible file cannot be resolved, the scan of an existing
  directory returns no list at all: it ends with an exception. When every file listed
  before that one resolves, the exception is the one of that file.
\<close>

theorem scan_directory_propagates_failure:
  assumes ex: "path_exists w directory"
    and f: "f \<in> set (python_files w directory)"
    and age: "get_file_age_days c w f = Inl e"
  shows "(\<exists>e'. scan_directory c w directory T = Inl e') \<and>
         (\<forall>pre post. python_files w directory = pre @ f # post \<and>
            (\<forall>g \<in> set pre. \<exists>a. get_file_age_days c w g = Inr a \<and>
               (a > T \<longrightarrow> (\<exists>t. get_last_commit_date c w g = Inr t)))
            \<longrightarrow> scan_directory c w directory T = Inl e)"
proof
  from scan_files_age_fails [OF f age] ex
  show "\<exists>e'. scan_directory c w directory T = Inl e'"
    by (simp add: scan_directory_def)
next
  show "\<forall>pre post. python_files w directory = pre @ f # post \<and>
            (\<forall>g \<in> set pre. \<exists>a. get_file_age_days c w g = Inr a \<and>
               (a > T \<longrightarrow> (\<exists>t. get_last_commit_date c w g = Inr t)))
            \<longrightarrow> scan_directory c w directory T = Inl e"
  proof (intro allI impI, elim conjE)
    fix pre post
    assume pf: "python_files w directory = pre @ f # post"
      and pre: "\<forall>g \<in> set pre. \<exists>a. get_file_age_days c w g = Inr a \<and>
               (a > T \<longrightarrow> (\<exists>t. get_last_commit_date c w g = Inr t))"
    from scan_files_passed [OF pre, of directory "f # post" "[]"] obtain acc' where
      "scan_files c w directory T (pre @ f # post) [] = scan_files c w directory T (f # post) acc'"
      by blast
    with age pf ex show "scan_directory c w directory T = Inl e"
      by (simp add: scan_directory_def)
  qed
qed

theorem scan_directory_propagates_failure_witness:
  "path_exists ex_world_untracked ex_dir \<and>
   ex_aruba \<in> set (python_files ex_world_untracked ex_dir) \<and>
   get_file_age_days ex_checker ex_world_untracked ex_aruba = Inl (RuntimeError NoCommitHistory) \<and>
   python_files ex_world_untracked ex_dir = [ex_zambia] @ ex_aruba # [] \<and>
   get_file_age_days ex_checker ex_world_untracked ex_zambia = Inr 10 \<and>
   scan_directory ex_checker ex_world_untracked ex_dir 5 = Inl (RuntimeError NoCommitHistory)"
proof -
  have f: "ex_aruba \<in> set (python_files ex_world_untracked ex_dir)"
    by (simp add: ex_python_files_untracked)
  have pf: "python_files ex_world_untracked ex_dir = [ex_zambia] @ ex_aruba # []"
    by (simp add: ex_python_files_untracked)
  have pre: "\<forall>g \<in> set [ex_zambia]. \<exists>a. get_file_age_days ex_checker ex_world_untracked g = Inr a \<and>
      (a > 5 \<longrightarrow> (\<exists>t. get_last_commit_date ex_checker ex_world_untracked g = Inr t))"
    by (simp add: ex_age_zambia_untracked ex_last_commit_zambia_untracked)
  from scan_directory_propagates_failure [OF ex_exists(2) f ex_age_aruba_untracked, of 5] pf pre
  have "scan_directory ex_checker ex_world_untracked ex_dir 5 = Inl (RuntimeError NoCommitHistory)"
    by blast
  with f pf show ?thesis
    by (simp add: ex_exists ex_age_aruba_untracked ex_age_zambia_untracked)
qed

text \<open>
  C8 (as the code has it). The scanner does not sort: the records come in the order in
  which the operating system lists the directory, restricted to the eligible files that
  are outdated. Two scans that see the same listing and resolve the same ages return the
  same paths and ages in the same order.
\<close>

theorem scan_directory_listing_order:
  assumes scan: "scan_directory c w directory T = Inr recs"
    and ex: "path_exists w directory"
  shows "map path recs
           = map (relative_str c) (filter (is_outdated c w T) (python_files w directory)) \<and>
         python_files w directory
           = map (\<lambda>n. directory\<lparr>parts := parts directory @ [n]\<rparr>)
               (filter (\<lambda>n. endswith n ''.py'' \<and> n \<noteq> ''__init__.py'') (scandir w directory)) \<and>
         (\<forall>w' recs'.
            scandir w' directory = scandir w directory \<and> path_exists w' directory \<and>
            (\<forall>f \<in> set (python_files w directory).
               get_file_age_days c w' f = get_file_age_days c w f) \<and>
            scan_directory c w' directory T = Inr recs'
            \<longrightarrow> map path recs' = map path recs \<and> map age_days recs' = map age_days recs)"
proof (intro conjI allI impI)
  have recs: "recs = map (file_record c w directory T)
                  (filter (is_outdated c w T) (python_files w directory))"
    using scan ex by (rule scan_directory_Inr)
  show paths: "map path recs
      = map (relative_str c) (filter (is_outdated c w T) (python_files w directory))"
    unfolding recs by (simp add: file_record_def o_def)
  show "python_files w directory
      = map (\<lambda>n. directory\<lparr>parts := parts directory @ [n]\<rparr>)
          (filter (\<lambda>n. endswith n ''.py'' \<and> n \<noteq> ''__init__.py'') (scandir w directory))"
    by (rule python_files_listing)
  fix w' recs'
  assume h: "scandir w' directory = scandir w directory \<and> path_exists w' directory \<and>
            (\<forall>f \<in> set (python_files w directory).
               get_file_age_days c w' f = get_file_age_days c w f) \<and>
            scan_directory c w' directory T = Inr recs'"
  then have pf: "python_files w' directory = python_files w directory"
    by (simp add: python_files_listing)
  from h have ages: "\<And>f. f \<in> set (python_files w directory) \<Longrightarrow>
      get_file_age_days c w' f = get_file_age_days c w f" by blast
  from h have recs': "recs' = map (file_record c w' directory T)
                  (filter (is_outdated c w' T) (python_files w directory))"
    using scan_directory_Inr [of c w' directory T recs'] pf by simp
  have flt: "filter (is_outdated c w' T) (python_files w directory)
      = filter (is_outdated c w T) (python_files w directory)"
    by (rule filter_cong) (simp_all add: is_outdated_def ages)
  show "map path recs' = map path recs"
    unfolding recs recs' flt by (simp add: file_record_def)
  show "map age_days recs' = map age_days recs"
    unfolding recs recs' flt by (simp add: file_record_def ages)
qed

theorem scan_directory_listing_order_witness:
  "scan_directory ex_checker ex_world ex_dir 5
     = Inr [ex_zambia_info, ex_aruba_info\<lparr>threshold_days := 5\<rparr>] \<and>
   path_exists ex_world ex_dir \<and>
   map path [ex_zambia_info, ex_aruba_info\<lparr>threshold_days := 5\<rparr>]
     = map (relative_str ex_checker)
         (filter (is_outdated ex_checker ex_world 5) (python_files ex_world ex_dir)) \<and>
   python_files ex_world ex_dir = [ex_zambia, ex_aruba]"
proof -
  have order: "map path [ex_zambia_info, ex_aruba_info\<lparr>threshold_days := 5\<rparr>]
     = map (relative_str ex_checker)
         (filter (is_outdated ex_checker ex_world 5) (python_files ex_world ex_dir))"
    using scan_directory_listing_order [OF ex_scan_5 ex_exists(1)] by (rule conjunct1)
  show ?thesis
    by (intro conjI) (rule ex_scan_5 ex_exists(1) order ex_python_files)+
qed

theorem scan_directory_not_sorted_counterexample:
  "scan_directory ex_checker ex_world ex_dir 5
     = Inr [ex_zambia_info, ex_aruba_info\<lparr>threshold_days := 5\<rparr>] \<and>
   \<not> sorted_wrt path_le (map path [ex_zambia_info, ex_aruba_info\<lparr>threshold_days := 5\<rparr>])"
  using ex_scan_5 by (simp add: ex_zambia_info_def ex_aruba_info_def)

subsection \<open>Age resolver\<close>

lemma try_git_yields:
  "yields w cmd out \<Longrightarrow> try_git_commands w (cmd # cmds) result = Inr (Some out)"
  by (simp add: yields_def subprocess_run_check_def)

lemma try_git_yields_nothing:
  assumes "yields_nothing w cmd" and "\<forall>out. result = Some out \<longrightarrow> strip out = []"
  shows "\<exists>result'. (\<forall>out. result' = Some out \<longrightarrow> strip out = []) \<and>
           try_git_commands w (cmd # cmds) result = try_git_commands w cmds result'"
  using assms
  by (cases "subprocess_run w cmd") (auto simp: yields_nothing_def subprocess_run_check_def)

lemma age_try_block_result:
  assumes "relative_to f (repo_path c) = Inr rel"
    and "subprocess_run w [''git'', ''status'', ''--porcelain''] = Returns 0 s"
    and "try_git_commands w (git_commands rel) None = Inr (Some out)"
    and "strip out \<noteq> []"
  shows "get_file_age_days c w f = age_of_output w out"
  using assms
  by (simp add: get_file_age_days_def age_try_block_def age_of_output_def split: option.splits)

lemma age_try_block_blank:
  assumes "relative_to f (repo_path c) = Inr rel"
    and "subprocess_run w [''git'', ''status'', ''--porcelain''] = Returns 0 s"
    and "try_git_commands w (git_commands rel) None = Inr result"
    and "\<forall>out. result = Some out \<longrightarrow> strip out = []"
  shows "get_file_age_days c w f = Inl (RuntimeError NoCommitHistory)"
  using assms
  by (cases result) (simp_all add: get_file_age_days_def age_try_block_def)

lemma ex_status_all:
  "subprocess_run ex_world_all [''git'', ''status'', ''--porcelain''] = Returns 0 []"
  by (simp add: ex_world_all_def ex_world_def ex_git_all_def)

lemma ex_all_follow:
  "yields_nothing ex_world_all
     (git_log_follow \<lparr>absolute = False, parts = [''holidays'', ''countries'', ''aruba.py'']\<rparr>)"
  by (simp add: yields_nothing_def ex_world_all_def ex_world_def ex_git_all_def
      git_log_follow_def ex_simps)

lemma ex_all_plain:
  "yields_nothing ex_world_all
     (git_log_plain \<lparr>absolute = False, parts = [''holidays'', ''countries'', ''aruba.py'']\<rparr>)"
  by (simp add: yields_nothing_def ex_world_all_def ex_world_def ex_git_all_def
      git_log_plain_def ex_simps)

lemma ex_all_all:
  "yields ex_world_all
     (git_log_all \<lparr>absolute = False, parts = [''holidays'', ''countries'', ''aruba.py'']\<rparr>)
     ''1682720000''"
  by (simp add: yields_def ex_world_all_def ex_world_def ex_git_all_def
      git_log_all_def ex_simps)

lemma ex_age_of_output: "age_of_output ex_world_all ''1682720000'' = Inr 200"
  by (simp add: age_of_output_def ex_world_all_def ex_world_def ex_simps)

lemma ex_age_aruba_all: "get_file_age_days ex_checker ex_world_all ex_aruba = Inr 200"
  by (simp add: get_file_age_days_def age_try_block_def ex_checker_def ex_world_all_def
      ex_world_def ex_git_all_def git_commands_def git_log_follow_def git_log_plain_def
      git_log_all_def subprocess_run_check_def ex_simps)

text \<open>
  C9 (as the code has it). After \<^verbatim>\<open>git status\<close> has succeeded, the age resolver asks
  git three times at most, in this order: the log that follows renames, the plain log,
  the log over all refs. The first command with a non-blank output gives the age (or
  a \<^verbatim>\<open>ValueError\<close> when the output is no integer); a command that exits with an
  error or prints nothing is passed over. When all three give nothing, the resolver
  raises the error "no commit history".
\<close>

theorem get_file_age_days_preference_order:
  assumes rel: "relative_to f (repo_path c) = Inr rel"
    and status: "subprocess_run w [''git'', ''status'', ''--porcelain''] = Returns 0 s"
  shows "(yields w (git_log_follow rel) out
            \<longrightarrow> get_file_age_days c w f = age_of_output w out) \<and>
         (yields_nothing w (git_log_follow rel) \<and> yields w (git_log_plain rel) out
            \<longrightarrow> get_file_age_days c w f = age_of_output w out) \<and>
         (yields_nothing w (git_log_follow rel) \<and> yields_nothing w (git_log_plain rel) \<and>
          yields w (git_log_all rel) out
            \<longrightarrow> get_file_age_days c w f = age_of_output w out) \<and>
         (yields_nothing w (git_log_follow rel) \<and> yields_nothing w (git_log_plain rel) \<and>
          yields_nothing w (git_log_all rel)
            \<longrightarrow> get_file_age_days c w f = Inl (RuntimeError NoCommitHistory))"
proof (intro conjI impI)
  have none: "\<forall>out. (None :: string option) = Some out \<longrightarrow> strip out = []" by simp
  {
    assume y: "yields w (git_log_follow rel) out"
    then have "try_git_commands w (git_commands rel) None = Inr (Some out)"
      unfolding git_commands_def by (rule try_git_yields)
    moreover from y have "strip out \<noteq> []" by (simp add: yields_def)
    ultimately show "get_file_age_days c w f = age_of_output w out"
      by (rule age_try_block_result [OF rel status])
  }
  {
    assume h: "yields_nothing w (git_log_follow rel) \<and> yields w (git_log_plain rel) out"
    from try_git_yields_nothing [OF conjunct1 [OF h] none] obtain r1 where
      "try_git_commands w (git_commands rel) None
         = try_git_commands w [git_log_plain rel, git_log_all rel] r1"
      unfolding git_commands_def by blast
    with try_git_yields [OF conjunct2 [OF h]]
    have "try_git_commands w (git_commands rel) None = Inr (Some out)" by simp
    moreover from h have "strip out \<noteq> []" by (simp add: yields_def)
    ultimately show "get_file_age_days c w f = age_of_output w out"
      by (rule age_try_block_result [OF rel status])
  }
  {
    assume h: "yields_nothing w (git_log_follow rel) \<and> yields_nothing w (git_log_plain rel) \<and>
          yields w (git_log_all rel) out"
    then have n1: "yields_nothing w (git_log_follow rel)"
      and n2: "yields_nothing w (git_log_plain rel)"
      and y3: "yields w (git_log_all rel) out" by simp_all
    from try_git_yields_nothing [OF n1 none] obtain r1 where
      r1: "\<forall>out. r1 = Some out \<longrightarrow> strip out = []"
      and e1: "try_git_commands w (git_commands rel) None
         = try_git_commands w [git_log_plain rel, git_log_all rel] r1"
      unfolding git_commands_def by blast
    from try_git_yields_nothing [OF n2 r1] obtain r2 where
      e2: "try_git_commands w [git_log_plain rel, git_log_all rel] r1
         = try_git_commands w [git_log_all rel] r2"
      by blast
    from e1 e2 try_git_yields [OF y3]
    have "try_git_commands w (git_commands rel) None = Inr (Some out)" by simp
    moreover from y3 have "strip out \<noteq> []" by (simp add: yields_def)
    ultimately show "get_file_age_days c w f = age_of_output w out"
      by (rule age_try_block_result [OF rel status])
  }
  {
    assume h: "yields_nothing w (git_log_follow rel) \<and> yields_nothing w (git_log_plain rel) \<and>
          yields_nothing w (git_log_all rel)"
    then have n1: "yields_nothing w (git_log_follow rel)"
      and n2: "yields_nothing w (git_log_plain rel)"
      and n3: "yields_nothing w (git_log_all rel)" by simp_all
    from try_git_yields_nothing [OF n1 none] obtain r1 where
      r1: "\<forall>out. r1 = Some out \<longrightarrow> strip out = []"
      and e1: "try_git_commands w (git_commands rel) None
         = try_git_commands w [git_log_plain rel, git_log_all rel] r1"
      unfolding git_commands_def by blast
    from try_git_yields_nothing [OF n2 r1] obtain r2 where
      r2: "\<forall>out. r2 = Some out \<longrightarrow> strip out = []"
      and e2: "try_git_commands w [git_log_plain rel, git_log_all rel] r1
         = try_git_commands w [git_log_all rel] r2"
      by blast
    from try_git_yields_nothing [OF n3 r2] obtain r3 where
      r3: "\<forall>out. r3 = Some out \<longrightarrow> strip out = []"
      and e3: "try_git_commands w [git_log_all rel] r2 = try_git_commands w [] r3"
      by blast
    from e1 e2 e3 have "try_git_commands w (git_commands rel) None = Inr r3" by simp
    then show "get_file_age_days c w f = Inl (RuntimeError NoCommitHistory)"
      using r3 by (rule age_try_block_blank [OF rel status])
  }
qed

theorem get_file_age_days_preference_order_witness:
  "relative_to ex_aruba (repo_path ex_checker)
     = Inr \<lparr>absolute = False, parts = [''holidays'', ''countries'', ''aruba.py'']\<rparr> \<and>
   subprocess_run ex_world_all [''git'', ''status'', ''--porcelain''] = Returns 0 [] \<and>
   yields_nothing ex_world_all
     (git_log_follow \<lparr>absolute = False, parts = [''holidays'', ''countries'', ''aruba.py'']\<rparr>) \<and>
   yields_nothing ex_world_all
     (git_log_plain \<lparr>absolute = False, parts = [''holidays'', ''countries'', ''aruba.py'']\<rparr>) \<and>
   yields ex_world_all
     (git_log_all \<lparr>absolute = False, parts = [''holidays'', ''countries'', ''aruba.py'']\<rparr>)
     ''1682720000'' \<and>
   get_file_age_days ex_checker ex_world_all ex_aruba = age_of_output ex_world_all ''1682720000'' \<and>
   age_of_output ex_world_all ''1682720000'' = Inr 200"
proof -
  have rel: "relative_to ex_aruba (repo_path ex_checker)
     = Inr \<lparr>absolute = False, parts = [''holidays'', ''countries'', ''aruba.py'']\<rparr>"
    by (simp add: ex_repo_path ex_relative_aruba)
  from get_file_age_days_preference_order [OF rel ex_status_all, of "''1682720000''"]
    ex_all_follow ex_all_plain ex_all_all
  have "get_file_age_days ex_checker ex_world_all ex_aruba
          = age_of_output ex_world_all ''1682720000''"
    by blast
  with rel ex_status_all ex_all_follow ex_all_plain ex_all_all ex_age_of_output
  show ?thesis by blast
qed

theorem get_file_age_days_two_step_counterexample:
  "yields_nothing ex_world_all
     (git_log_follow \<lparr>absolute = False, parts = [''holidays'', ''countries'', ''aruba.py'']\<rparr>) \<and>
   yields_nothing ex_world_all
     (git_log_plain \<lparr>absolute = False, parts = [''holidays'', ''countries'', ''aruba.py'']\<rparr>) \<and>
   get_file_age_days ex_checker ex_world_all ex_aruba = Inr 200"
  by (intro conjI) (rule ex_all_follow ex_all_plain ex_age_aruba_all)+

subsection \<open>Run orchestrator: exceptions of the scan\<close>

lemma ex_files_dir: "joinpath (repo_path ex_checker) (files_path ex_checker) = ex_dir"
  by (simp add: joinpath_def ex_checker_def ex_repo_def ex_dir_def)

lemma ex_check_freshness: "check_freshness ex_checker ex_world = Inr [ex_aruba_info]"
  using ex_scan_180 by (simp add: check_freshness_def ex_files_dir) (simp add: ex_checker_def)

lemma ex_scan_untracked:
  "scan_directory ex_checker ex_world_untracked ex_dir 180 = Inl (RuntimeError NoCommitHistory)"
  by (simp add: scan_directory_def ex_exists ex_python_files_untracked ex_age_zambia_untracked
      ex_age_aruba_untracked ex_repo_path ex_simps)

lemma ex_check_freshness_untracked:
  "check_freshness ex_checker ex_world_untracked = Inl (RuntimeError NoCommitHistory)"
  using ex_scan_untracked by (simp add: check_freshness_def ex_files_dir) (simp add: ex_checker_def)

text \<open>
  C4 (as the code has it). \<^verbatim>\<open>run\<close> has no \<^verbatim>\<open>except\<close> clause of its own. It
  returns a result whenever the scan returns, whatever the tracker does during
  reconciliation; an exception of the scan leaves \<^verbatim>\<open>run\<close> unchanged, before the
  tracker is touched, and is left to the caller.
\<close>

theorem run_returns_iff_scan_returns:
  "(check_freshness c w = Inr outdated \<longrightarrow>
      run c w tr =
        (Inr \<lparr>outdated_files = outdated,
              stats = fst (process_outdated_files c w outdated tr),
              timestamp = isoformat w (now w)\<rparr>,
         snd (process_outdated_files c w outdated tr))) \<and>
   (check_freshness c w = Inl e \<longrightarrow> run c w tr = (Inl e, tr))"
  by (simp add: run_def split: prod.splits)

theorem run_returns_iff_scan_returns_witness:
  "check_freshness ex_checker ex_world = Inr [ex_aruba_info] \<and>
   run ex_checker ex_world ex_tracker =
     (Inr \<lparr>outdated_files = [ex_aruba_info],
           stats = fst (process_outdated_files ex_checker ex_world [ex_aruba_info] ex_tracker),
           timestamp = isoformat ex_world (now ex_world)\<rparr>,
      snd (process_outdated_files ex_checker ex_world [ex_aruba_info] ex_tracker)) \<and>
   check_freshness ex_checker ex_world_untracked = Inl (RuntimeError NoCommitHistory) \<and>
   run ex_checker ex_world_untracked ex_tracker = (Inl (RuntimeError NoCommitHistory), ex_tracker)"
  using run_returns_iff_scan_returns [of ex_checker ex_world "[ex_aruba_info]" ex_tracker]
    run_returns_iff_scan_returns [of ex_checker ex_world_untracked _ ex_tracker
      "RuntimeError NoCommitHistory"]
    ex_check_freshness ex_check_freshness_untracked
  by blast

theorem run_raises_counterexample:
  "run ex_checker ex_world_untracked ex_tracker = (Inl (RuntimeError NoCommitHistory), ex_tracker)"
  by (simp add: run_def ex_check_freshness_untracked)

subsection \<open>Issue reconciler and run orchestrator\<close>

lemma process_loop_count:
  "created (fst (process_loop c w fs st tr)) + errors (fst (process_loop c w fs st tr))
     = created st + errors st + int (length fs)"
  by (induction fs arbitrary: st tr) (auto split: prod.splits sum.splits)

lemma process_loop_skipped:
  "skipped (fst (process_loop c w fs st tr)) = skipped st"
  by (induction fs arbitrary: st tr) (auto split: prod.splits sum.splits)

lemma process_loop_dry_run:
  "dry_run c \<Longrightarrow> process_loop c w fs st tr = (st\<lparr>created := created st + int (length fs)\<rparr>, tr)"
  by (induction fs arbitrary: st) (auto simp: create_github_issue_def)

lemma get_issues_open_calls:
  "calls (snd (get_issues_open tr)) = calls tr @ [GetIssues]"
  by (auto simp: get_issues_open_def next_fault_def split: list.splits option.splits fault.splits)

lemma create_issue_calls:
  "calls (snd (create_issue tr t b ls)) = calls tr @ [CreateIssue t]"
  by (auto simp: create_issue_def next_fault_def Let_def split: list.splits option.splits fault.splits)

lemma find_existing_issue_searches:
  "repo_set c \<Longrightarrow> searches (snd (find_existing_issue c info tr)) = Suc (searches tr)"
  using get_issues_open_calls [of tr]
  by (auto simp: find_existing_issue_def searches_def split: prod.splits option.splits)

lemma create_github_issue_searches:
  assumes "\<not> dry_run c" and "repo_set c"
  shows "searches (snd (create_github_issue c w info tr)) = Suc (searches tr)"
proof -
  obtain r tr1 where f: "find_existing_issue c info tr = (r, tr1)" by (cases "find_existing_issue c info tr")
  with find_existing_issue_searches [OF assms(2), of info tr]
  have s1: "searches tr1 = Suc (searches tr)" by simp
  have s2: "\<And>b r' tr2. create_issue tr1 (create_issue_title info) b issue_labels = (r', tr2)
      \<Longrightarrow> searches tr2 = searches tr1"
  proof -
    fix b r' tr2
    assume "create_issue tr1 (create_issue_title info) b issue_labels = (r', tr2)"
    with create_issue_calls [of tr1 "create_issue_title info" b issue_labels]
    show "searches tr2 = searches tr1" by (simp add: searches_def)
  qed
  show ?thesis
    using assms f s1 s2
    by (auto simp: create_github_issue_def split: sum.splits option.splits prod.splits)
qed

lemma process_loop_searches:
  assumes "\<not> dry_run c" and "repo_set c"
  shows "searches (snd (process_loop c w fs st tr)) = searches tr + length fs"
proof (induction fs arbitrary: st tr)
  case Nil
  show ?case by simp
next
  case (Cons info fs)
  obtain r tr1 where g: "create_github_issue c w info tr = (r, tr1)"
    by (cases "create_github_issue c w info tr")
  with create_github_issue_searches [OF assms, of w info tr]
  have "searches tr1 = Suc (searches tr)" by simp
  with g Cons.IH show ?case
    by (auto split: sum.splits)
qed


lemma ex_title_aruba: "create_issue_title ex_aruba_info = ''[Holiday Updates] Update required: Aruba''"
  by (simp add: create_issue_title_def ex_aruba_info_def)

lemma ex_title_angola: "create_issue_title ex_angola_info = ''[Holiday Updates] Update required: Angola''"
  by (simp add: create_issue_title_def ex_angola_info_def)

lemma ex_title_zambia: "create_issue_title ex_zambia_info = ''[Holiday Updates] Update required: Zambia''"
  by (simp add: create_issue_title_def ex_zambia_info_def)

lemma ex_body_aruba:
  "create_issue_body ex_world ex_aruba_info
     = Inr ''File holidays/countries/aruba.py needs updating (last modified: April 28, 2023)''"
  by (simp add: create_issue_body_def ex_world_def ex_aruba_info_def)

lemma ex_body_angola:
  "create_issue_body ex_world ex_angola_info
     = Inr ''File holidays/countries/angola.py needs updating (last modified: April 28, 2023)''"
  by (simp add: create_issue_body_def ex_world_def ex_angola_info_def)

lemma ex_body_zambia:
  "create_issue_body ex_world ex_zambia_info
     = Inr ''File holidays/countries/zambia.py needs updating (last modified: November 04, 2023)''"
  by (simp add: create_issue_body_def ex_world_def ex_zambia_info_def)

lemmas ex_tracker_simps =
  ex_title_aruba ex_title_angola ex_title_zambia ex_body_aruba ex_body_angola ex_body_zambia
  create_github_issue_def find_existing_issue_def get_issues_open_def create_issue_def
  next_fault_def ex_checker_def Let_def

lemma ex_reconcile_second_fails:
  "process_outdated_files ex_checker ex_world [ex_aruba_info, ex_angola_info, ex_zambia_info]
     ex_tracker_second_create_fails
   = (\<lparr>created = 2, skipped = 0, errors = 1\<rparr>,
      \<lparr>open_issues =
         [\<lparr>title = ''[Holiday Updates] Update required: Aruba'', number = 1,
           body = ''File holidays/countries/aruba.py needs updating (last modified: April 28, 2023)'',
           labels = issue_labels\<rparr>,
          \<lparr>title = ''[Holiday Updates] Update required: Zambia'', number = 2,
           body = ''File holidays/countries/zambia.py needs updating (last modified: November 04, 2023)'',
           labels = issue_labels\<rparr>],
       next_number = 3,
       faults = [],
       calls =
         [GetIssues, CreateIssue ''[Holiday Updates] Update required: Aruba'',
          GetIssues, CreateIssue ''[Holiday Updates] Update required: Angola'',
          GetIssues, CreateIssue ''[Holiday Updates] Update required: Zambia'']\<rparr>)"
  by (simp add: process_outdated_files_def ex_tracker_second_create_fails_def ex_tracker_def
      ex_tracker_simps)

lemma ex_reconcile_search_fails:
  "process_outdated_files ex_checker ex_world [ex_aruba_info] ex_tracker_search_fails
   = (\<lparr>created = 1, skipped = 0, errors = 0\<rparr>,
      \<lparr>open_issues =
         [ex_aruba_issue,
          \<lparr>title = ''[Holiday Updates] Update required: Aruba'', number = 8,
           body = ''File holidays/countries/aruba.py needs updating (last modified: April 28, 2023)'',
           labels = issue_labels\<rparr>],
       next_number = 9,
       faults = [],
       calls = [GetIssues, CreateIssue ''[Holiday Updates] Update required: Aruba'']\<rparr>)"
  by (simp add: process_outdated_files_def ex_tracker_search_fails_def ex_tracker_open_def
      ex_tracker_simps)

lemma ex_reconcile_open:
  "process_outdated_files ex_checker ex_world [ex_aruba_info] ex_tracker_open
   = (\<lparr>created = 1, skipped = 0, errors = 0\<rparr>, ex_tracker_open\<lparr>calls := [GetIssues]\<rparr>)"
  by (simp add: process_outdated_files_def ex_tracker_open_def ex_aruba_issue_def
      ex_tracker_simps)

lemma ex_reconcile_new:
  "process_outdated_files ex_checker ex_world [ex_aruba_info] ex_tracker
   = (\<lparr>created = 1, skipped = 0, errors = 0\<rparr>,
      \<lparr>open_issues =
         [\<lparr>title = ''[Holiday Updates] Update required: Aruba'', number = 1,
           body = ''File holidays/countries/aruba.py needs updating (last modified: April 28, 2023)'',
           labels = issue_labels\<rparr>],
       next_number = 2,
       faults = [],
       calls = [GetIssues, CreateIssue ''[Holiday Updates] Update required: Aruba'']\<rparr>)"
  by (simp add: process_outdated_files_def ex_tracker_def ex_tracker_simps)


lemma get_issues_open_ok:
  "search_succeeds tr \<Longrightarrow>
     get_issues_open tr
       = ((open_issues tr, None), tr\<lparr>calls := calls tr @ [GetIssues], faults := tl (faults tr)\<rparr>)"
  by (cases tr) (auto simp: search_succeeds_def get_issues_open_def next_fault_def split: list.splits)

lemma find_title_Some:
  "\<exists>i \<in> set is. title i = t \<Longrightarrow> \<exists>j. find (\<lambda>i. title i = t) is = Some j"
  by (cases "find (\<lambda>i. title i = t) is") (auto simp: find_None_iff)

lemma create_github_issue_already_open:
  assumes "\<not> dry_run c" and "repo_set c" and "search_succeeds tr"
    and "\<exists>i \<in> set (open_issues tr). title i = create_issue_title info"
  shows "create_github_issue c w info tr
           = (Inr True, tr\<lparr>calls := calls tr @ [GetIssues], faults := tl (faults tr)\<rparr>)"
proof -
  from find_title_Some [OF assms(4)] obtain j where
    "find (\<lambda>i. title i = create_issue_title info) (open_issues tr) = Some j" by blast
  with assms(1,2) get_issues_open_ok [OF assms(3)] show ?thesis
    by (simp add: create_github_issue_def find_existing_issue_def)
qed

text \<open>
  C2. After reconciliation of any list of outdated records, the counters of created
  issues and of errors add up to the length of the list. A record whose issue is found
  open in the tracker counts as created: the reconciler returns \<open>True\<close> after the
  search alone, and the loop raises \<open>created\<close>.
\<close>

theorem process_outdated_files_counts:
  "created (fst (process_outdated_files c w outdated tr))
     + errors (fst (process_outdated_files c w outdated tr)) = int (length outdated) \<and>
   (\<not> dry_run c \<and> repo_set c \<and> search_succeeds tr \<and>
    (\<exists>i \<in> set (open_issues tr). title i = create_issue_title info)
      \<longrightarrow> create_github_issue c w info tr
            = (Inr True, tr\<lparr>calls := calls tr @ [GetIssues], faults := tl (faults tr)\<rparr>) \<and>
          process_loop c w (info # rest) st tr
            = process_loop c w rest (st\<lparr>created := created st + 1\<rparr>)
                (tr\<lparr>calls := calls tr @ [GetIssues], faults := tl (faults tr)\<rparr>))"
proof (intro conjI impI)
  show "created (fst (process_outdated_files c w outdated tr))
     + errors (fst (process_outdated_files c w outdated tr)) = int (length outdated)"
    using process_loop_count [of c w outdated "\<lparr>created = 0, skipped = 0, errors = 0\<rparr>" tr]
    by (simp add: process_outdated_files_def)
next
  assume h: "\<not> dry_run c \<and> repo_set c \<and> search_succeeds tr \<and>
    (\<exists>i \<in> set (open_issues tr). title i = create_issue_title info)"
  then show g: "create_github_issue c w info tr
            = (Inr True, tr\<lparr>calls := calls tr @ [GetIssues], faults := tl (faults tr)\<rparr>)"
    by (simp add: create_github_issue_already_open)
  then show "process_loop c w (info # rest) st tr
            = process_loop c w rest (st\<lparr>created := created st + 1\<rparr>)
                (tr\<lparr>calls := calls tr @ [GetIssues], faults := tl (faults tr)\<rparr>)"
    by simp
qed

theorem process_outdated_files_counts_witness:
  "\<not> dry_run ex_checker \<and> repo_set ex_checker \<and> search_succeeds ex_tracker_open \<and>
   (\<exists>i \<in> set (open_issues ex_tracker_open). title i = create_issue_title ex_aruba_info) \<and>
   create_github_issue ex_checker ex_world ex_aruba_info ex_tracker_open
     = (Inr True, ex_tracker_open\<lparr>calls := calls ex_tracker_open @ [GetIssues],
                                    faults := tl (faults ex_tracker_open)\<rparr>) \<and>
   created (fst (process_outdated_files ex_checker ex_world [ex_aruba_info] ex_tracker_open))
     + errors (fst (process_outdated_files ex_checker ex_world [ex_aruba_info] ex_tracker_open))
     = int (length [ex_aruba_info]) \<and>
   process_outdated_files ex_checker ex_world [ex_aruba_info] ex_tracker_open
     = (\<lparr>created = 1, skipped = 0, errors = 0\<rparr>, ex_tracker_open\<lparr>calls := [GetIssues]\<rparr>)"
proof -
  have h: "\<not> dry_run ex_checker \<and> repo_set ex_checker \<and> search_succeeds ex_tracker_open \<and>
   (\<exists>i \<in> set (open_issues ex_tracker_open). title i = create_issue_title ex_aruba_info)"
    by (simp add: ex_checker_def search_succeeds_def ex_tracker_open_def ex_aruba_issue_def
        ex_title_aruba)
  from process_outdated_files_counts
    [of ex_checker ex_world "[ex_aruba_info]" ex_tracker_open ex_aruba_info] h ex_reconcile_open
  show ?thesis by blast
qed

lemma process_loop_step:
  "\<exists>st' tr'. process_loop c w (info # rest) st tr = process_loop c w rest st' tr' \<and>
     skipped st' = skipped st \<and>
     ((created st' = created st + 1 \<and> errors st' = errors st) \<or>
      (created st' = created st \<and> errors st' = errors st + 1))"
proof (cases "create_github_issue c w info tr")
  case (Pair r tr')
  show ?thesis
  proof (cases r)
    case (Inl e)
    with Pair have "process_loop c w (info # rest) st tr
        = process_loop c w rest (st\<lparr>errors := errors st + 1\<rparr>) tr'" by simp
    then show ?thesis by (intro exI [of _ "st\<lparr>errors := errors st + 1\<rparr>"] exI [of _ tr']) simp
  next
    case (Inr ok)
    show ?thesis
    proof (cases ok)
      case True
      with Pair Inr have "process_loop c w (info # rest) st tr
        = process_loop c w rest (st\<lparr>created := created st + 1\<rparr>) tr'" by simp
      then show ?thesis by (intro exI [of _ "st\<lparr>created := created st + 1\<rparr>"] exI [of _ tr']) simp
    next
      case False
      with Pair Inr have "process_loop c w (info # rest) st tr
        = process_loop c w rest (st\<lparr>errors := errors st + 1\<rparr>) tr'" by simp
      then show ?thesis by (intro exI [of _ "st\<lparr>errors := errors st + 1\<rparr>"] exI [of _ tr']) simp
    qed
  qed
qed

text \<open>
  C3 (as the code has it). Whatever happens to one record, the loop goes on with the
  rest, and the record raises exactly one of \<open>created\<close> and \<open>errors\<close>. An exception
  of the creation is counted in \<open>errors\<close>. A \<^verbatim>\<open>GithubException\<close> of the search is
  not counted: it is caught inside the search, which then reports that no issue exists,
  and the record is treated as any record without an open issue. For such a record
  the body is rendered and the issue created: the record counts as created when both
  succeed, and as an error when the rendering raises (then no creation is attempted) or
  the creation raises. Any exception of the search that is no \<^verbatim>\<open>GithubException\<close> is
  counted in \<open>errors\<close>. Outside dry-run mode and with a repository, every record is
  searched for once. When the creation fails on the second of three records, the
  counters end at 2 created and 1 error, and all three records have been searched for
  and attempted.
\<close>

theorem process_outdated_files_isolates_failures:
  "(\<exists>st' tr'. process_loop c w (info # rest) st tr = process_loop c w rest st' tr' \<and>
     skipped st' = skipped st \<and>
     ((created st' = created st + 1 \<and> errors st' = errors st) \<or>
      (created st' = created st \<and> errors st' = errors st + 1))) \<and>
   (\<not> dry_run c \<and> repo_set c \<and> find_existing_issue c info tr = (Inr None, tr1) \<and>
    create_issue_body w info = Inr b \<and>
    create_issue tr1 (create_issue_title info) b issue_labels = (Inl e, tr2)
      \<longrightarrow> process_loop c w (info # rest) st tr
            = process_loop c w rest (st\<lparr>errors := errors st + 1\<rparr>) tr2) \<and>
   (\<not> dry_run c \<and> repo_set c \<and> find_existing_issue c info tr = (Inr None, tr1) \<and>
    create_issue_body w info = Inr b \<and>
    create_issue tr1 (create_issue_title info) b issue_labels = (Inr new_issue, tr2)
      \<longrightarrow> process_loop c w (info # rest) st tr
            = process_loop c w rest (st\<lparr>created := created st + 1\<rparr>) tr2) \<and>
   (\<not> dry_run c \<and> repo_set c \<and> find_existing_issue c info tr = (Inr None, tr1) \<and>
    create_issue_body w info = Inl e
      \<longrightarrow> process_loop c w (info # rest) st tr
            = process_loop c w rest (st\<lparr>errors := errors st + 1\<rparr>) tr1) \<and>
   (repo_set c \<and> get_issues_open tr = ((issues, Some GithubException), tr1) \<and>
    find (\<lambda>i. title i = create_issue_title info) issues = None
      \<longrightarrow> find_existing_issue c info tr = (Inr None, tr1)) \<and>
   (\<not> dry_run c \<and> repo_set c \<and> get_issues_open tr = ((issues, Some e), tr1) \<and>
    e \<noteq> GithubException \<and> find (\<lambda>i. title i = create_issue_title info) issues = None
      \<longrightarrow> process_loop c w (info # rest) st tr
            = process_loop c w rest (st\<lparr>errors := errors st + 1\<rparr>) tr1) \<and>
   (\<not> dry_run c \<and> repo_set c
      \<longrightarrow> searches (snd (process_outdated_files c w outdated tr))
            = searches tr + length outdated) \<and>
   fst (process_outdated_files ex_checker ex_world [ex_aruba_info, ex_angola_info, ex_zambia_info]
          ex_tracker_second_create_fails)
     = \<lparr>created = 2, skipped = 0, errors = 1\<rparr> \<and>
   calls (snd (process_outdated_files ex_checker ex_world
                 [ex_aruba_info, ex_angola_info, ex_zambia_info] ex_tracker_second_create_fails))
     = [GetIssues, CreateIssue (create_issue_title ex_aruba_info),
        GetIssues, CreateIssue (create_issue_title ex_angola_info),
        GetIssues, CreateIssue (create_issue_title ex_zambia_info)]"
proof (intro conjI impI)
  show "\<exists>st' tr'. process_loop c w (info # rest) st tr = process_loop c w rest st' tr' \<and>
     skipped st' = skipped st \<and>
     ((created st' = created st + 1 \<and> errors st' = errors st) \<or>
      (created st' = created st \<and> errors st' = errors st + 1))"
    by (rule process_loop_step)
next
  assume "\<not> dry_run c \<and> repo_set c \<and> find_existing_issue c info tr = (Inr None, tr1) \<and>
    create_issue_body w info = Inr b \<and>
    create_issue tr1 (create_issue_title info) b issue_labels = (Inl e, tr2)"
  then show "process_loop c w (info # rest) st tr
            = process_loop c w rest (st\<lparr>errors := errors st + 1\<rparr>) tr2"
    by (simp add: create_github_issue_def)
next
  assume "\<not> dry_run c \<and> repo_set c \<and> find_existing_issue c info tr = (Inr None, tr1) \<and>
    create_issue_body w info = Inr b \<and>
    create_issue tr1 (create_issue_title info) b issue_labels = (Inr new_issue, tr2)"
  then show "process_loop c w (info # rest) st tr
            = process_loop c w rest (st\<lparr>created := created st + 1\<rparr>) tr2"
    by (simp add: create_github_issue_def)
next
  assume "\<not> dry_run c \<and> repo_set c \<and> find_existing_issue c info tr = (Inr None, tr1) \<and>
    create_issue_body w info = Inl e"
  then show "process_loop c w (info # rest) st tr
            = process_loop c w rest (st\<lparr>errors := errors st + 1\<rparr>) tr1"
    by (simp add: create_github_issue_def)
next
  assume "repo_set c \<and> get_issues_open tr = ((issues, Some GithubException), tr1) \<and>
    find (\<lambda>i. title i = create_issue_title info) issues = None"
  then show "find_existing_issue c info tr = (Inr None, tr1)"
    by (simp add: find_existing_issue_def)
next
  assume "\<not> dry_run c \<and> repo_set c \<and> get_issues_open tr = ((issues, Some e), tr1) \<and>
    e \<noteq> GithubException \<and> find (\<lambda>i. title i = create_issue_title info) issues = None"
  then show "process_loop c w (info # rest) st tr
            = process_loop c w rest (st\<lparr>errors := errors st + 1\<rparr>) tr1"
    by (simp add: create_github_issue_def find_existing_issue_def)
next
  assume "\<not> dry_run c \<and> repo_set c"
  then show "searches (snd (process_outdated_files c w outdated tr)) = searches tr + length outdated"
    by (simp add: process_outdated_files_def process_loop_searches)
next
  show "fst (process_outdated_files ex_checker ex_world [ex_aruba_info, ex_angola_info, ex_zambia_info]
          ex_tracker_second_create_fails)
     = \<lparr>created = 2, skipped = 0, errors = 1\<rparr>"
    by (simp add: ex_reconcile_second_fails)
next
  show "calls (snd (process_outdated_files ex_checker ex_world
                 [ex_aruba_info, ex_angola_info, ex_zambia_info] ex_tracker_second_create_fails))
     = [GetIssues, CreateIssue (create_issue_title ex_aruba_info),
        GetIssues, CreateIssue (create_issue_title ex_angola_info),
        GetIssues, CreateIssue (create_issue_title ex_zambia_info)]"
    by (simp add: ex_reconcile_second_fails ex_title_aruba ex_title_angola ex_title_zambia)
qed


lemma ex_search_fails:
  "get_issues_open ex_tracker_search_fails
     = (([], Some GithubException), ex_tracker_open\<lparr>calls := [GetIssues]\<rparr>)"
  by (simp add: get_issues_open_def next_fault_def ex_tracker_search_fails_def ex_tracker_open_def)

lemma ex_find_create_fails:
  "find_existing_issue ex_checker ex_aruba_info ex_tracker_create_fails
     = (Inr None, \<lparr>open_issues = [], next_number = 1,
                   faults = [Some (Fault OtherException 0)], calls = [GetIssues]\<rparr>)"
  by (simp add: find_existing_issue_def get_issues_open_def next_fault_def ex_checker_def
      ex_tracker_create_fails_def ex_tracker_def)

lemma ex_create_fails:
  "create_issue \<lparr>open_issues = [], next_number = 1,
                 faults = [Some (Fault OtherException 0)], calls = [GetIssues]\<rparr>
       (create_issue_title ex_aruba_info)
       ''File holidays/countries/aruba.py needs updating (last modified: April 28, 2023)''
       issue_labels
     = (Inl OtherException,
        \<lparr>open_issues = [], next_number = 1, faults = [],
         calls = [GetIssues, CreateIssue (create_issue_title ex_aruba_info)]\<rparr>)"
  by (simp add: create_issue_def next_fault_def)

lemma ex_flags: "\<not> dry_run ex_checker" "repo_set ex_checker" "dry_run ex_dry_checker"
  by (simp_all add: ex_checker_def ex_dry_checker_def)

lemma ex_create_after_search:
  "create_issue (ex_tracker_open\<lparr>calls := [GetIssues]\<rparr>)
       (create_issue_title ex_aruba_info)
       ''File holidays/countries/aruba.py needs updating (last modified: April 28, 2023)''
       issue_labels
     = (Inr \<lparr>title = create_issue_title ex_aruba_info, number = 8,
              body = ''File holidays/countries/aruba.py needs updating (last modified: April 28, 2023)'',
              labels = issue_labels\<rparr>,
        \<lparr>open_issues =
           [ex_aruba_issue,
            \<lparr>title = create_issue_title ex_aruba_info, number = 8,
             body = ''File holidays/countries/aruba.py needs updating (last modified: April 28, 2023)'',
             labels = issue_labels\<rparr>],
         next_number = 9, faults = [],
         calls = [GetIssues, CreateIssue (create_issue_title ex_aruba_info)]\<rparr>)"
  by (simp add: create_issue_def next_fault_def ex_tracker_open_def Let_def)

lemma ex_body_bad_template:
  "create_issue_body ex_world_bad_template ex_aruba_info = Inl (KeyError ''days_old'')"
  by (simp add: create_issue_body_def ex_world_bad_template_def ex_world_def ex_aruba_info_def)

theorem process_outdated_files_isolates_failures_witness:
  "\<not> dry_run ex_checker \<and> repo_set ex_checker \<and>
   get_issues_open ex_tracker_search_fails
     = (([], Some GithubException), ex_tracker_open\<lparr>calls := [GetIssues]\<rparr>) \<and>
   find_existing_issue ex_checker ex_aruba_info ex_tracker_search_fails
     = (Inr None, ex_tracker_open\<lparr>calls := [GetIssues]\<rparr>) \<and>
   create_issue_body ex_world ex_aruba_info
     = Inr ''File holidays/countries/aruba.py needs updating (last modified: April 28, 2023)'' \<and>
   process_loop ex_checker ex_world [ex_aruba_info] \<lparr>created = 0, skipped = 0, errors = 0\<rparr>
       ex_tracker_create_fails
     = (\<lparr>created = 0, skipped = 0, errors = 1\<rparr>,
        \<lparr>open_issues = [], next_number = 1, faults = [],
         calls = [GetIssues, CreateIssue (create_issue_title ex_aruba_info)]\<rparr>) \<and>
   searches (snd (process_outdated_files ex_checker ex_world
                    [ex_aruba_info, ex_angola_info, ex_zambia_info]
                    ex_tracker_second_create_fails))
     = searches ex_tracker_second_create_fails + 3 \<and>
   process_loop ex_checker ex_world [ex_aruba_info] \<lparr>created = 0, skipped = 0, errors = 0\<rparr>
       ex_tracker_search_fails
     = (\<lparr>created = 1, skipped = 0, errors = 0\<rparr>,
        \<lparr>open_issues =
           [ex_aruba_issue,
            \<lparr>title = create_issue_title ex_aruba_info, number = 8,
             body = ''File holidays/countries/aruba.py needs updating (last modified: April 28, 2023)'',
             labels = issue_labels\<rparr>],
         next_number = 9, faults = [],
         calls = [GetIssues, CreateIssue (create_issue_title ex_aruba_info)]\<rparr>) \<and>
   create_issue_body ex_world_bad_template ex_aruba_info = Inl (KeyError ''days_old'') \<and>
   process_loop ex_checker ex_world_bad_template [ex_aruba_info]
       \<lparr>created = 0, skipped = 0, errors = 0\<rparr> ex_tracker_search_fails
     = (\<lparr>created = 0, skipped = 0, errors = 1\<rparr>, ex_tracker_open\<lparr>calls := [GetIssues]\<rparr>)"
proof -
  note iso = process_outdated_files_isolates_failures
  have none: "find (\<lambda>i. title i = create_issue_title ex_aruba_info) [] = None" by simp
  from iso [where c = ex_checker and info = ex_aruba_info and tr = ex_tracker_search_fails
      and ?tr1.0 = "ex_tracker_open\<lparr>calls := [GetIssues]\<rparr>" and issues = "[]"]
    ex_flags(2) ex_search_fails none
  have a: "find_existing_issue ex_checker ex_aruba_info ex_tracker_search_fails
     = (Inr None, ex_tracker_open\<lparr>calls := [GetIssues]\<rparr>)"
    by blast
  from iso [where c = ex_checker and w = ex_world and info = ex_aruba_info and rest = "[]"
      and st = "\<lparr>created = 0, skipped = 0, errors = 0\<rparr>"
      and tr = ex_tracker_create_fails
      and ?tr1.0 = "\<lparr>open_issues = [], next_number = 1,
        faults = [Some (Fault OtherException 0)], calls = [GetIssues]\<rparr>"
      and b = "''File holidays/countries/aruba.py needs updating (last modified: April 28, 2023)''"
      and e = OtherException
      and ?tr2.0 = "\<lparr>open_issues = [], next_number = 1, faults = [],
         calls = [GetIssues, CreateIssue (create_issue_title ex_aruba_info)]\<rparr>"]
    ex_flags(1,2) ex_find_create_fails ex_body_aruba ex_create_fails
  have "process_loop ex_checker ex_world [ex_aruba_info] \<lparr>created = 0, skipped = 0, errors = 0\<rparr>
       ex_tracker_create_fails
     = process_loop ex_checker ex_world []
         (\<lparr>created = 0, skipped = 0, errors = 0\<rparr>
            \<lparr>errors := errors \<lparr>created = 0, skipped = 0, errors = 0\<rparr> + 1\<rparr>)
         \<lparr>open_issues = [], next_number = 1, faults = [],
          calls = [GetIssues, CreateIssue (create_issue_title ex_aruba_info)]\<rparr>"
    by blast
  then have b: "process_loop ex_checker ex_world [ex_aruba_info]
       \<lparr>created = 0, skipped = 0, errors = 0\<rparr> ex_tracker_create_fails
     = (\<lparr>created = 0, skipped = 0, errors = 1\<rparr>,
        \<lparr>open_issues = [], next_number = 1, faults = [],
         calls = [GetIssues, CreateIssue (create_issue_title ex_aruba_info)]\<rparr>)"
    by simp
  from iso [where c = ex_checker and w = ex_world
      and outdated = "[ex_aruba_info, ex_angola_info, ex_zambia_info]"
      and tr = ex_tracker_second_create_fails]
    ex_flags(1,2)
  have "searches (snd (process_outdated_files ex_checker ex_world
                    [ex_aruba_info, ex_angola_info, ex_zambia_info]
                    ex_tracker_second_create_fails))
     = searches ex_tracker_second_create_fails + length [ex_aruba_info, ex_angola_info, ex_zambia_info]"
    by blast
  then have c: "searches (snd (process_outdated_files ex_checker ex_world
                    [ex_aruba_info, ex_angola_info, ex_zambia_info]
                    ex_tracker_second_create_fails))
     = searches ex_tracker_second_create_fails + 3"
    by simp
  from iso [where c = ex_checker and w = ex_world and info = ex_aruba_info and rest = "[]"
      and st = "\<lparr>created = 0, skipped = 0, errors = 0\<rparr>"
      and tr = ex_tracker_search_fails
      and ?tr1.0 = "ex_tracker_open\<lparr>calls := [GetIssues]\<rparr>"
      and b = "''File holidays/countries/aruba.py needs updating (last modified: April 28, 2023)''"
      and new_issue = "\<lparr>title = create_issue_title ex_aruba_info, number = 8,
             body = ''File holidays/countries/aruba.py needs updating (last modified: April 28, 2023)'',
             labels = issue_labels\<rparr>"
      and ?tr2.0 = "\<lparr>open_issues =
           [ex_aruba_issue,
            \<lparr>title = create_issue_title ex_aruba_info, number = 8,
             body = ''File holidays/countries/aruba.py needs updating (last modified: April 28, 2023)'',
             labels = issue_labels\<rparr>],
         next_number = 9, faults = [],
         calls = [GetIssues, CreateIssue (create_issue_title ex_aruba_info)]\<rparr>"]
    ex_flags(1,2) a ex_body_aruba ex_create_after_search
  have "process_loop ex_checker ex_world [ex_aruba_info] \<lparr>created = 0, skipped = 0, errors = 0\<rparr>
       ex_tracker_search_fails
     = process_loop ex_checker ex_world []
         (\<lparr>created = 0, skipped = 0, errors = 0\<rparr>
            \<lparr>created := created \<lparr>created = 0, skipped = 0, errors = 0\<rparr> + 1\<rparr>)
         \<lparr>open_issues =
           [ex_aruba_issue,
            \<lparr>title = create_issue_title ex_aruba_info, number = 8,
             body = ''File holidays/countries/aruba.py needs updating (last modified: April 28, 2023)'',
             labels = issue_labels\<rparr>],
          next_number = 9, faults = [],
          calls = [GetIssues, CreateIssue (create_issue_title ex_aruba_info)]\<rparr>"
    by blast
  then have d: "process_loop ex_checker ex_world [ex_aruba_info]
       \<lparr>created = 0, skipped = 0, errors = 0\<rparr> ex_tracker_search_fails
     = (\<lparr>created = 1, skipped = 0, errors = 0\<rparr>,
        \<lparr>open_issues =
           [ex_aruba_issue,
            \<lparr>title = create_issue_title ex_aruba_info, number = 8,
             body = ''File holidays/countries/aruba.py needs updating (last modified: April 28, 2023)'',
             labels = issue_labels\<rparr>],
         next_number = 9, faults = [],
         calls = [GetIssues, CreateIssue (create_issue_title ex_aruba_info)]\<rparr>)"
    by simp
  from iso [where c = ex_checker and w = ex_world_bad_template and info = ex_aruba_info
      and rest = "[]" and st = "\<lparr>created = 0, skipped = 0, errors = 0\<rparr>"
      and tr = ex_tracker_search_fails
      and ?tr1.0 = "ex_tracker_open\<lparr>calls := [GetIssues]\<rparr>"
      and e = "KeyError ''days_old''"]
    ex_flags(1,2) a ex_body_bad_template
  have "process_loop ex_checker ex_world_bad_template [ex_aruba_info]
       \<lparr>created = 0, skipped = 0, errors = 0\<rparr> ex_tracker_search_fails
     = process_loop ex_checker ex_world_bad_template []
         (\<lparr>created = 0, skipped = 0, errors = 0\<rparr>
            \<lparr>errors := errors \<lparr>created = 0, skipped = 0, errors = 0\<rparr> + 1\<rparr>)
         (ex_tracker_open\<lparr>calls := [GetIssues]\<rparr>)"
    by blast
  then have f: "process_loop ex_checker ex_world_bad_template [ex_aruba_info]
       \<lparr>created = 0, skipped = 0, errors = 0\<rparr> ex_tracker_search_fails
     = (\<lparr>created = 0, skipped = 0, errors = 1\<rparr>, ex_tracker_open\<lparr>calls := [GetIssues]\<rparr>)"
    by simp
  show ?thesis
    by (intro conjI)
       (rule ex_flags(1) ex_flags(2) ex_search_fails a ex_body_aruba b c d
             ex_body_bad_template f)+
qed

theorem search_error_not_failed_counterexample:
  "get_issues_open ex_tracker_search_fails
     = (([], Some GithubException), ex_tracker_open\<lparr>calls := [GetIssues]\<rparr>) \<and>
   fst (process_outdated_files ex_checker ex_world [ex_aruba_info] ex_tracker_search_fails)
     = \<lparr>created = 1, skipped = 0, errors = 0\<rparr>"
  by (simp add: ex_search_fails ex_reconcile_search_fails)





text \<open>
  C7. In dry-run mode the reconciler returns \<open>True\<close> for every record without any
  call to the tracker: the tracker after it, with its open issues, its log of calls and
  its script, is the tracker before it. The same holds for the whole batch and for
  \<^verbatim>\<open>run\<close>.
\<close>

theorem dry_run_leaves_tracker:
  assumes "dry_run c"
  shows "create_github_issue c w info tr = (Inr True, tr) \<and>
         process_outdated_files c w outdated tr
           = (\<lparr>created = int (length outdated), skipped = 0, errors = 0\<rparr>, tr) \<and>
         snd (run c w tr) = tr"
proof (intro conjI)
  from assms show "create_github_issue c w info tr = (Inr True, tr)"
    by (simp add: create_github_issue_def)
  from assms show p: "process_outdated_files c w outdated tr
           = (\<lparr>created = int (length outdated), skipped = 0, errors = 0\<rparr>, tr)"
    by (simp add: process_outdated_files_def process_loop_dry_run)
  from assms show "snd (run c w tr) = tr"
    by (cases "check_freshness c w")
       (simp_all add: run_def process_outdated_files_def process_loop_dry_run)
qed

theorem dry_run_leaves_tracker_witness:
  "dry_run ex_dry_checker \<and>
   create_github_issue ex_dry_checker ex_world ex_aruba_info ex_tracker_search_fails
     = (Inr True, ex_tracker_search_fails) \<and>
   process_outdated_files ex_dry_checker ex_world [ex_aruba_info, ex_angola_info]
       ex_tracker_search_fails
     = (\<lparr>created = 2, skipped = 0, errors = 0\<rparr>, ex_tracker_search_fails) \<and>
   snd (run ex_dry_checker ex_world ex_tracker_search_fails) = ex_tracker_search_fails"
  using dry_run_leaves_tracker [OF ex_flags(3), where w = ex_world and info = ex_aruba_info
      and tr = ex_tracker_search_fails and outdated = "[ex_aruba_info, ex_angola_info]"]
    ex_flags(3)
  by simp

lemma ex_run:
  "run ex_checker ex_world ex_tracker
   = (Inr \<lparr>outdated_files = [ex_aruba_info],
            stats = \<lparr>created = 1, skipped = 0, errors = 0\<rparr>,
            timestamp = ''2023-11-14T22:13:20''\<rparr>,
      \<lparr>open_issues =
         [\<lparr>title = ''[Holiday Updates] Update required: Aruba'', number = 1,
           body = ''File holidays/countries/aruba.py needs updating (last modified: April 28, 2023)'',
           labels = issue_labels\<rparr>],
       next_number = 2,
       faults = [],
       calls = [GetIssues, CreateIssue ''[Holiday Updates] Update required: Aruba'']\<rparr>)"
  by (simp add: run_def ex_check_freshness ex_reconcile_new) (simp add: ex_world_def)

text \<open>
  C10. The counter \<open>skipped\<close> is 0 in the statistics of every batch, and so in every
  result that \<^verbatim>\<open>run\<close> returns.
\<close>

theorem skipped_always_zero:
  "skipped (fst (process_outdated_files c w outdated tr)) = 0 \<and>
   (\<forall>res tr'. run c w tr = (Inr res, tr') \<longrightarrow> skipped (stats res) = 0)"
proof (intro conjI allI impI)
  show z: "skipped (fst (process_outdated_files c w outdated tr)) = 0" for outdated
    by (simp add: process_outdated_files_def process_loop_skipped)
  fix res tr'
  assume "run c w tr = (Inr res, tr')"
  then obtain fs where "check_freshness c w = Inr fs"
    and "stats res = fst (process_outdated_files c w fs tr)"
    by (cases "check_freshness c w") (auto simp: run_def split: prod.splits)
  with z show "skipped (stats res) = 0" by simp
qed

theorem skipped_always_zero_witness:
  "run ex_checker ex_world ex_tracker
     = (Inr \<lparr>outdated_files = [ex_aruba_info],
              stats = \<lparr>created = 1, skipped = 0, errors = 0\<rparr>,
              timestamp = ''2023-11-14T22:13:20''\<rparr>,
        snd (run ex_checker ex_world ex_tracker)) \<and>
   skipped (stats \<lparr>outdated_files = [ex_aruba_info],
              stats = \<lparr>created = 1, skipped = 0, errors = 0\<rparr>,
              timestamp = ''2023-11-14T22:13:20''\<rparr>) = 0"
proof -
  have r: "run ex_checker ex_world ex_tracker
     = (Inr \<lparr>outdated_files = [ex_aruba_info],
              stats = \<lparr>created = 1, skipped = 0, errors = 0\<rparr>,
              timestamp = ''2023-11-14T22:13:20''\<rparr>,
        snd (run ex_checker ex_world ex_tracker))"
    by (simp add: ex_run)
  from skipped_always_zero [where c = ex_checker and w = ex_world and tr = ex_tracker] r
  show ?thesis by blast
qed

end
